theory Spec2Isabelle
  imports Main "HOL-Library.Sublist"
begin

section \<open>The docs sync script (sparse-clone.ts) and the layout configuration\<close>

text \<open>
  The script is a straight line of calls to the outside world: the clock, the file system
  primitives of node:fs, and child processes started with execSync. The outside world is
  a parameter of the model (the record \<open>env\<close>); the script itself is translated statement by
  statement. A path is the list of its components, a file system a partial map from
  paths to nodes.
\<close>

subsection \<open>Paths, files, errors\<close>

type_synonym path = "string list"

datatype node = File string | Dir

type_synonym filesystem = "path \<rightharpoonup> node"

text \<open>The calls that reach outside the process; a run records them in order.\<close>

datatype call =
  DateNow
  | RmSync path
  | MkdirSync path
  | CpSync path path
  | ExecSync string path

text \<open>
  What can be thrown: execSync throws when the child exits non-zero, a node:fs primitive
  throws a system error, and the script itself throws \<open>new Error(message)\<close>.
\<close>

datatype error =
  CommandFailed string path
  | FsFailed call
  | Error string

text \<open>
  How an async function can end: its promise resolves, its promise rejects, or
  \<open>process.exit(n)\<close> ends the whole process on the spot, in which case no further
  JavaScript runs, pending \<open>finally\<close> blocks included, and the promise never settles.
\<close>

datatype completion = Returned | Threw error | Exited nat

record world =
  fs :: filesystem
  stdout :: "string list"
  stderr :: "(string \<times> error) list"
  calls :: "(call \<times> bool) list"

text \<open>
  The environment of one run. \<open>shell cmd dir f\<close> is what running the command line
  \<open>cmd\<close> in working directory \<open>dir\<close> does to the file system \<open>f\<close>, with the
  child's output when it exits with status 0 and \<open>None\<close> when it does not.
  \<open>fs_fault c f\<close> says whether the node:fs call \<open>c\<close> throws on \<open>f\<close> for a
  reason of the operating system (permissions, a busy file); a call that throws is
  modelled as leaving the file system as it was.
\<close>

record env =
  tmpdir :: path
  cwd :: path
  clock :: nat
  shell :: "string \<Rightarrow> path \<Rightarrow> filesystem \<Rightarrow> filesystem \<times> string option"
  fs_fault :: "call \<Rightarrow> filesystem \<Rightarrow> bool"

type_synonym step = "world \<Rightarrow> error option \<times> world"

subsection \<open>Strings\<close>

definition digit_char :: "nat \<Rightarrow> char" where
  "digit_char d = ''0123456789'' ! d"

text \<open>The decimal rendering of a number inside a template literal.\<close>

fun show_nat :: "nat \<Rightarrow> string" where
  "show_nat n = (if n < 10 then [digit_char n] else show_nat (n div 10) @ [digit_char (n mod 10)])"

declare show_nat.simps [simp del]

text \<open>\<open>s.split(c)\<close>: the empty string splits into one empty piece.\<close>

fun split_on :: "char \<Rightarrow> string \<Rightarrow> string list" where
  "split_on c [] = [[]]"
| "split_on c (x # xs) =
     (if x = c then [] # split_on c xs
      else (case split_on c xs of [] \<Rightarrow> [[x]] | y # ys \<Rightarrow> (x # y) # ys))"

text \<open>
  The text a child process prints is a list of bytes, UTF-8. These are the code points
  that \<open>String.prototype.trim\<close> strips (ECMAScript's WhiteSpace and LineTerminator:
  U+0009 to U+000D, U+0020, U+00A0, U+1680, U+2000 to U+200A, U+2028, U+2029, U+202F,
  U+205F, U+3000, U+FEFF), each as its UTF-8 encoding.
\<close>

definition white_space :: "string list" where
  "white_space =
     [[CHR 0x09], [CHR 0x0A], [CHR 0x0B], [CHR 0x0C], [CHR 0x0D], [CHR 0x20],
      [CHR 0xC2, CHR 0xA0],
      [CHR 0xE1, CHR 0x9A, CHR 0x80],
      [CHR 0xE2, CHR 0x80, CHR 0x80], [CHR 0xE2, CHR 0x80, CHR 0x81],
      [CHR 0xE2, CHR 0x80, CHR 0x82], [CHR 0xE2, CHR 0x80, CHR 0x83],
      [CHR 0xE2, CHR 0x80, CHR 0x84], [CHR 0xE2, CHR 0x80, CHR 0x85],
      [CHR 0xE2, CHR 0x80, CHR 0x86], [CHR 0xE2, CHR 0x80, CHR 0x87],
      [CHR 0xE2, CHR 0x80, CHR 0x88], [CHR 0xE2, CHR 0x80, CHR 0x89],
      [CHR 0xE2, CHR 0x80, CHR 0x8A],
      [CHR 0xE2, CHR 0x80, CHR 0xA8], [CHR 0xE2, CHR 0x80, CHR 0xA9],
      [CHR 0xE2, CHR 0x80, CHR 0xAF],
      [CHR 0xE2, CHR 0x81, CHR 0x9F],
      [CHR 0xE3, CHR 0x80, CHR 0x80],
      [CHR 0xEF, CHR 0xBB, CHR 0xBF]]"

text \<open>
  Removes from the front of a text, as long as there is one, an occurrence of one of the
  given pieces.
\<close>

function strip_leading :: "string list \<Rightarrow> string \<Rightarrow> string" where
  "strip_leading ws s =
     (case find (\<lambda>x. x \<noteq> [] \<and> prefix x s) ws of
        None \<Rightarrow> s
      | Some x \<Rightarrow> strip_leading ws (drop (length x) s))"
  by pat_completeness auto

termination
proof (relation "measure (\<lambda>(ws, s). length s)")
  show "wf (measure (\<lambda>(ws, s). length s))"
    by simp
next
  fix ws :: "string list" and s x :: string
  assume "find (\<lambda>x. x \<noteq> [] \<and> prefix x s) ws = Some x"
  then have "x \<noteq> []" and "prefix x s"
    by (auto simp: find_Some_iff)
  then have "0 < length x" and "length x \<le> length s"
    by (simp_all add: prefix_length_le)
  then have "length s - length x < length s"
    by arith
  then show "((ws, drop (length x) s), (ws, s)) \<in> measure (\<lambda>(ws, s). length s)"
    by simp
qed

declare strip_leading.simps [simp del]

text \<open>\<open>s.trim()\<close>: white space is stripped at both ends.\<close>

definition trim :: "string \<Rightarrow> string" where
  "trim s = rev (strip_leading (map rev white_space) (rev (strip_leading white_space s)))"

definition newline :: char where
  "newline = CHR 0x0A"

text \<open>An absolute path as text, and node:path's \<open>join\<close> of a directory and a name.\<close>

definition path_str :: "path \<Rightarrow> string" where
  "path_str p = concat (map (\<lambda>c. CHR ''/'' # c) p)"

definition join :: "path \<Rightarrow> string \<Rightarrow> path" where
  "join d name = d @ [name]"

text \<open>A relative path of the script, resolved against the working directory.\<close>

definition resolve :: "env \<Rightarrow> string \<Rightarrow> path" where
  "resolve e rel = cwd e @ filter (\<lambda>c. c \<noteq> ''.'' \<and> c \<noteq> []) (split_on CHR ''/'' rel)"

subsection \<open>Console, node:fs and node:child_process\<close>

definition console_log :: "string \<Rightarrow> world \<Rightarrow> world" where
  "console_log s w = w\<lparr>stdout := stdout w @ [s]\<rparr>"

definition console_error :: "string \<Rightarrow> error \<Rightarrow> world \<Rightarrow> world" where
  "console_error s e w = w\<lparr>stderr := stderr w @ [(s, e)]\<rparr>"

definition log :: "string \<Rightarrow> step" where
  "log s w = (None, console_log s w)"

definition record_call :: "call \<Rightarrow> bool \<Rightarrow> world \<Rightarrow> world" where
  "record_call c ok w = w\<lparr>calls := calls w @ [(c, ok)]\<rparr>"

definition date_now :: "env \<Rightarrow> world \<Rightarrow> nat \<times> world" where
  "date_now e w = (clock e, record_call DateNow True w)"

definition existsSync :: "path \<Rightarrow> world \<Rightarrow> bool" where
  "existsSync p w \<longleftrightarrow> fs w p \<noteq> None"

text \<open>
  \<open>rmSync(p, {recursive: true, force: true})\<close>: the node and everything below it.
  The \<open>force\<close> option only silences a missing path; any other system error is thrown.
\<close>

definition rmSync :: "env \<Rightarrow> path \<Rightarrow> step" where
  "rmSync e p w =
     (if fs_fault e (RmSync p) (fs w)
      then (Some (FsFailed (RmSync p)), record_call (RmSync p) False w)
      else (None, record_call (RmSync p) True
                    (w\<lparr>fs := (\<lambda>q. if prefix p q then None else fs w q)\<rparr>)))"

text \<open>
  \<open>mkdirSync(p, {recursive: true})\<close>: creates the directory and its missing ancestors;
  an existing directory is left alone, a file in the way is an error.
\<close>

definition is_file :: "node option \<Rightarrow> bool" where
  "is_file x = (case x of Some (File s) \<Rightarrow> True | _ \<Rightarrow> False)"

definition mkdirSync :: "env \<Rightarrow> path \<Rightarrow> step" where
  "mkdirSync e p w =
     (if fs_fault e (MkdirSync p) (fs w) \<or> list_ex (\<lambda>q. is_file (fs w q)) (prefixes p)
      then (Some (FsFailed (MkdirSync p)), record_call (MkdirSync p) False w)
      else (None, record_call (MkdirSync p) True
                    (w\<lparr>fs := (\<lambda>q. if prefix q p \<and> fs w q = None then Some Dir else fs w q)\<rparr>)))"

text \<open>
  \<open>cpSync(src, dst, {recursive: true})\<close>: every node at or below \<open>src\<close> is written at
  the same place below \<open>dst\<close>; what \<open>dst\<close> held elsewhere stays.
\<close>

definition cpSync :: "env \<Rightarrow> path \<Rightarrow> path \<Rightarrow> step" where
  "cpSync e src dst w =
     (if fs_fault e (CpSync src dst) (fs w)
      then (Some (FsFailed (CpSync src dst)), record_call (CpSync src dst) False w)
      else (None, record_call (CpSync src dst) True
                    (w\<lparr>fs := (\<lambda>q. if prefix dst q
                                   then (case fs w (src @ drop (length dst) q) of
                                           Some n \<Rightarrow> Some n
                                         | None \<Rightarrow> fs w q)
                                   else fs w q)\<rparr>)))"

text \<open>
  \<open>execSync(cmd, {cwd: dir, encoding: "utf8"})\<close> returns the child's output;
  with \<open>stdio: "inherit"\<close> the output goes to the terminal instead.
\<close>

definition execSync_utf8 :: "env \<Rightarrow> string \<Rightarrow> path \<Rightarrow> world \<Rightarrow> (error + string) \<times> world" where
  "execSync_utf8 e cmd dir w =
     (case shell e cmd dir (fs w) of
        (f, None) \<Rightarrow> (Inl (CommandFailed cmd dir), record_call (ExecSync cmd dir) False (w\<lparr>fs := f\<rparr>))
      | (f, Some out) \<Rightarrow> (Inr out, record_call (ExecSync cmd dir) True (w\<lparr>fs := f\<rparr>)))"

definition execSync_inherit :: "env \<Rightarrow> string \<Rightarrow> path \<Rightarrow> step" where
  "execSync_inherit e cmd dir w =
     (case shell e cmd dir (fs w) of
        (f, None) \<Rightarrow> (Some (CommandFailed cmd dir), record_call (ExecSync cmd dir) False (w\<lparr>fs := f\<rparr>))
      | (f, Some out) \<Rightarrow> (None, record_call (ExecSync cmd dir) True (w\<lparr>fs := f, stdout := stdout w @ [out]\<rparr>)))"

text \<open>Statements in sequence: the first one that throws ends the block.\<close>

fun run_steps :: "step list \<Rightarrow> step" where
  "run_steps [] w = (None, w)"
| "run_steps (s # ss) w =
     (case s w of
        (Some err, w') \<Rightarrow> (Some err, w')
      | (None, w') \<Rightarrow> run_steps ss w')"

subsection \<open>sparse-clone.ts\<close>

text \<open>The console messages are given without their leading pictographs.\<close>

definition REPO_URL :: string where
  "REPO_URL = ''https://github.com/intern3-chat/intern3-chat.git''"

definition TARGET_DOCS_DIR :: string where
  "TARGET_DOCS_DIR = ''./content/docs''"

definition derive_tempDir :: "env \<Rightarrow> world \<Rightarrow> path \<times> world" where
  "derive_tempDir e w =
     (case date_now e w of
        (t, w') \<Rightarrow> (join (tmpdir e) (''intern3-docs-clone-'' @ show_nat t), w'))"

definition clone_cmd :: "path \<Rightarrow> string" where
  "clone_cmd tempDir =
     ''git clone --no-checkout --filter=blob:none --depth=1 --single-branch '' @ REPO_URL
       @ '' '' @ [CHR 0x22] @ path_str tempDir @ [CHR 0x22]"

definition find_checked_out :: string where
  "find_checked_out = ''find . -name '.*' -prune -o -type f -print''"

definition find_target :: string where
  "find_target = ''find ./content/docs -type f''"

definition clear_target :: "env \<Rightarrow> step" where
  "clear_target e w =
     (if existsSync (resolve e TARGET_DOCS_DIR) w
      then rmSync e (resolve e TARGET_DOCS_DIR) (console_log ''Removing existing docs directory...'' w)
      else (None, w))"

text \<open>Step 6, with its own try/catch.\<close>

definition verify_checkout :: "env \<Rightarrow> path \<Rightarrow> step" where
  "verify_checkout e tempDir w =
     (case execSync_utf8 e find_checked_out tempDir w of
        (Inr checkedOut, w') \<Rightarrow>
          (None,
           console_log (''Contents: '' @ trim checkedOut)
             (console_log (''Files checked out: ''
                             @ show_nat (length (split_on newline (trim checkedOut)))
                             @ '' files'') w'))
      | (Inl err, w') \<Rightarrow> (None, console_log ''Could not list checked out files'' w'))"

text \<open>The listing of the final directory, with its own try/catch.\<close>

definition list_target :: "env \<Rightarrow> step" where
  "list_target e w =
     (case execSync_utf8 e find_target (cwd e) w of
        (Inr files, w') \<Rightarrow>
          (None,
           console_log (''Total files: '' @ show_nat (length (split_on newline (trim files))))
             (console_log files w'))
      | (Inl err, w') \<Rightarrow>
          (None, console_log ''Could not list files, but copy completed successfully'' w'))"

definition docs_not_found :: error where
  "docs_not_found =
     Error ''Docs folder not found in cloned repository - the repository might not have a docs folder''"

text \<open>Step 7.\<close>

definition copy_docs :: "env \<Rightarrow> path \<Rightarrow> step" where
  "copy_docs e tempDir w =
     (let tempDocsDir = join tempDir ''docs'' in
      if existsSync tempDocsDir w
      then run_steps
             [log ''Copying docs folder to target location...'',
              mkdirSync e (resolve e ''./content''),
              cpSync e tempDocsDir (resolve e TARGET_DOCS_DIR),
              log ''Successfully copied docs folder to ./content/docs'',
              log ''Final result - files in ./content/docs:'',
              list_target e] w
      else (Some docs_not_found, w))"

text \<open>The statements of the try block up to and including step 6.\<close>

definition checkout_steps :: "env \<Rightarrow> path \<Rightarrow> step list" where
  "checkout_steps e tempDir =
     [log ''Starting optimized sparse clone of docs folder...'',
      clear_target e,
      log (''Creating optimized sparse clone in: '' @ path_str tempDir),
      execSync_inherit e (clone_cmd tempDir) (cwd e),
      execSync_inherit e ''git config core.sparseCheckout true'' tempDir,
      execSync_inherit e ''git sparse-checkout init --cone'' tempDir,
      execSync_inherit e ''git sparse-checkout set docs'' tempDir,
      log ''Checking out only docs folder...'',
      execSync_inherit e ''git checkout'' tempDir,
      log ''Verifying sparse checkout contents...'',
      verify_checkout e tempDir]"

definition try_block :: "env \<Rightarrow> path \<Rightarrow> step" where
  "try_block e tempDir = run_steps (checkout_steps e tempDir @ [copy_docs e tempDir])"

definition finally_block :: "env \<Rightarrow> path \<Rightarrow> step" where
  "finally_block e tempDir w =
     (if existsSync tempDir w
      then rmSync e tempDir (console_log ''Cleaning up temporary directory...'' w)
      else (None, w))"

text \<open>
  The function: the catch clause logs and calls \<open>process.exit(1)\<close>, which ends the process
  before the finally clause; the finally clause runs when the try block completes, and
  what it throws rejects the promise.
\<close>

definition sparseCloneDocs :: "env \<Rightarrow> world \<Rightarrow> completion \<times> world" where
  "sparseCloneDocs e w =
     (case derive_tempDir e w of
        (tempDir, w0) \<Rightarrow>
          (case try_block e tempDir w0 of
             (Some err, w1) \<Rightarrow> (Exited 1, console_error ''Error during sparse clone:'' err w1)
           | (None, w1) \<Rightarrow>
               (case finally_block e tempDir w1 of
                  (Some err, w2) \<Rightarrow> (Threw err, w2)
                | (None, w2) \<Rightarrow> (Returned, w2))))"

text \<open>
  The script run as the main module: the exit status of the process and the world it
  leaves. A process that runs to its end exits with status 0.
\<close>

definition main :: "env \<Rightarrow> world \<Rightarrow> nat \<times> world" where
  "main e w =
     (case sparseCloneDocs e w of
        (Returned, w') \<Rightarrow> (0, console_log ''Optimized sparse clone completed successfully!'' w')
      | (Threw err, w') \<Rightarrow> (1, console_error ''Script failed:'' err w')
      | (Exited n, w') \<Rightarrow> (n, w'))"

subsection \<open>layout.config.tsx\<close>

text \<open>
  The JSX of the title as a tree: an element with its attributes and children, a text
  node, or a fragment.
\<close>

datatype jsx =
  Element string "(string \<times> string) list" "jsx list"
  | Text string
  | Fragment "jsx list"

text \<open>
  Modelled from the spec: the types \<open>BaseLayoutProps\<close> and its link descriptor are
  declared by the layout library, outside the repository; a link descriptor is
  "minimally identified by label and target address", the links "an ordered sequence".
  The component \<open>Logo\<close> of \<open>./components/logo\<close> is not among the sources; it
  appears in the title as the element of that name, the "icon" of the spec.
\<close>

record link_item =
  label :: string
  href :: string

record nav_options =
  title :: jsx

record base_layout_props =
  nav :: nav_options
  links :: "link_item list"

definition baseOptions :: base_layout_props where
  "baseOptions =
     \<lparr>nav = \<lparr>title = Fragment [Element ''Logo'' [(''className'', ''w-6 h-6'')] [],
                               Text ''intern3.chat'']\<rparr>,
      links = []\<rparr>"

text \<open>
  The export is a constant of the model. The object is not frozen in the source: whether
  a module that imports it ever mutates it, and what the layout library makes of an
  empty list of links, are properties of code outside these two files, and nothing is
  stated about them below.
\<close>

subsection \<open>Vocabulary of the properties\<close>

text \<open>The two listings that only feed the log.\<close>

definition diagnostic :: "call \<Rightarrow> bool" where
  "diagnostic c =
     (case c of
        ExecSync cmd dir \<Rightarrow> cmd = find_checked_out \<or> cmd = find_target
      | _ \<Rightarrow> False)"

definition ok_or_diag :: "call \<times> bool \<Rightarrow> bool" where
  "ok_or_diag x = (snd x \<or> diagnostic (fst x))"

text \<open>
  The fixed order of the steps, as calls: the clock reading of step 1, the clearing of the
  target, the clone, the two commands that enable sparse checkout, the inclusion of
  \<open>docs\<close>, the checkout, the first listing, the copy with the creation of its parent
  directory, the second listing, and the cleanup.
\<close>

definition plan :: "env \<Rightarrow> call list" where
  "plan e =
     (let tempDir = join (tmpdir e) (''intern3-docs-clone-'' @ show_nat (clock e)) in
      [DateNow,
       RmSync (resolve e TARGET_DOCS_DIR),
       ExecSync (clone_cmd tempDir) (cwd e),
       ExecSync ''git config core.sparseCheckout true'' tempDir,
       ExecSync ''git sparse-checkout init --cone'' tempDir,
       ExecSync ''git sparse-checkout set docs'' tempDir,
       ExecSync ''git checkout'' tempDir,
       ExecSync find_checked_out tempDir,
       MkdirSync (resolve e ''./content''),
       CpSync (join tempDir ''docs'') (resolve e TARGET_DOCS_DIR),
       ExecSync find_target (cwd e),
       RmSync tempDir])"

text \<open>The calls made by one run of the script, started in world \<open>w\<close>.\<close>

definition trace_of :: "env \<Rightarrow> world \<Rightarrow> (call \<times> bool) list" where
  "trace_of e w = drop (length (calls w)) (calls (snd (main e w)))"

text \<open>
  A step with the calls it may make: it only appends to the record of calls, in the order
  of the given list, a call that throws outside a diagnostic listing is the last one, and
  the step throws when there is one.
\<close>

definition step_trace :: "step \<Rightarrow> call list \<Rightarrow> bool" where
  "step_trace s pl \<longleftrightarrow>
     (\<forall>w. \<exists>tr. calls (snd (s w)) = calls w @ tr \<and> subseq (map fst tr) pl
             \<and> list_all ok_or_diag (butlast tr)
             \<and> (fst (s w) = None \<longrightarrow> list_all ok_or_diag tr))"

text \<open>
  The steps of the procedure as calls, in the order of the spec: the clock reading of
  step 1; the clearing of the target, which is there to do when the target exists; the
  clone; the two commands that enable sparse checkout; the inclusion of \<open>docs\<close>; the
  checkout; the first listing; then the copy, with the creation of its parent directory,
  and the second listing.
\<close>

definition checkout_plan :: "env \<Rightarrow> world \<Rightarrow> call list" where
  "checkout_plan e w =
     (let tempDir = join (tmpdir e) (''intern3-docs-clone-'' @ show_nat (clock e)) in
      [DateNow]
      @ (if existsSync (resolve e TARGET_DOCS_DIR) w then [RmSync (resolve e TARGET_DOCS_DIR)] else [])
      @ [ExecSync (clone_cmd tempDir) (cwd e),
         ExecSync ''git config core.sparseCheckout true'' tempDir,
         ExecSync ''git sparse-checkout init --cone'' tempDir,
         ExecSync ''git sparse-checkout set docs'' tempDir,
         ExecSync ''git checkout'' tempDir,
         ExecSync find_checked_out tempDir])"

definition copy_plan :: "env \<Rightarrow> call list" where
  "copy_plan e =
     (let tempDir = join (tmpdir e) (''intern3-docs-clone-'' @ show_nat (clock e)) in
      [MkdirSync (resolve e ''./content''),
       CpSync (join tempDir ''docs'') (resolve e TARGET_DOCS_DIR),
       ExecSync find_target (cwd e)])"

definition steps_plan :: "env \<Rightarrow> world \<Rightarrow> call list" where
  "steps_plan e w = checkout_plan e w @ copy_plan e"

text \<open>The calls made by the steps of one run: those of the clock reading and the try block.\<close>

definition steps_trace :: "env \<Rightarrow> world \<Rightarrow> (call \<times> bool) list" where
  "steps_trace e w =
     drop (length (calls w))
       (calls (snd (try_block e (fst (derive_tempDir e w)) (snd (derive_tempDir e w)))))"

text \<open>
  Calls made along a list of planned calls, with the outcome \<open>r\<close> of making them: the
  calls made are an initial part of the plan, only the last one can have failed outside
  a listing, and they are the whole plan, none failed outside a listing, exactly when
  nothing is thrown.
\<close>

definition trace_ok :: "error option \<Rightarrow> (call \<times> bool) list \<Rightarrow> call list \<Rightarrow> bool" where
  "trace_ok r tr pl \<longleftrightarrow>
     prefix (map fst tr) pl \<and> list_all ok_or_diag (butlast tr)
     \<and> (if r = None then map fst tr = pl \<and> list_all ok_or_diag tr
         else tr \<noteq> [] \<and> \<not> ok_or_diag (last tr))"

definition step_run :: "step \<Rightarrow> call list \<Rightarrow> bool" where
  "step_run s pl \<longleftrightarrow>
     (\<forall>w. \<exists>tr. calls (snd (s w)) = calls w @ tr \<and> trace_ok (fst (s w)) tr pl)"





text \<open>The world when the try block reaches step 7, and the docs tree of the clone then.\<close>

definition after_checkout :: "env \<Rightarrow> world \<Rightarrow> error option \<times> world" where
  "after_checkout e w =
     (case derive_tempDir e w of (tempDir, w0) \<Rightarrow> run_steps (checkout_steps e tempDir) w0)"


text \<open>The world in which \<open>git clone\<close> is started.\<close>

definition before_clone :: "env \<Rightarrow> world \<Rightarrow> error option \<times> world" where
  "before_clone e w =
     (case derive_tempDir e w of
        (tempDir, w0) \<Rightarrow> run_steps (take 3 (checkout_steps e tempDir)) w0)"

text \<open>
  Two worlds that agree on the file system and on the error stream, and two steps that
  take such worlds to such worlds with the same outcome.
\<close>

definition sim :: "world \<Rightarrow> world \<Rightarrow> bool" where
  "sim w w' \<longleftrightarrow> fs w = fs w' \<and> stderr w = stderr w'"

definition sim_step :: "step \<Rightarrow> step \<Rightarrow> bool" where
  "sim_step s s' \<longleftrightarrow>
     (\<forall>w w'. sim w w' \<longrightarrow> fst (s w) = fst (s' w') \<and> sim (snd (s w)) (snd (s' w')))"

text \<open>
  Two environments that differ at most in the output of child processes and in whether
  the two listings succeed.
\<close>

definition same_but_listing :: "env \<Rightarrow> env \<Rightarrow> bool" where
  "same_but_listing e e' \<longleftrightarrow>
     tmpdir e = tmpdir e' \<and> cwd e = cwd e' \<and> clock e = clock e' \<and> fs_fault e = fs_fault e'
     \<and> (\<forall>cmd dir f. fst (shell e cmd dir f) = fst (shell e' cmd dir f))
     \<and> (\<forall>cmd dir f. cmd \<noteq> find_checked_out \<and> cmd \<noteq> find_target \<longrightarrow>
            (snd (shell e cmd dir f) = None) = (snd (shell e' cmd dir f) = None))"

subsection \<open>A concrete environment\<close>

text \<open>
  A project in \<open>/site\<close> with a stale \<open>content/docs\<close>, the clock at 1000, and a shell in
  which \<open>git clone\<close> creates the clone directory, \<open>git checkout\<close> materialises either
  \<open>docs/guide.md\<close> or, for a remote without a docs folder, only \<open>README.md\<close>, and
  \<open>find\<close> succeeds or not. The last parameter makes the removal of the clone fail.
\<close>

definition demo_tempDir :: path where
  "demo_tempDir = [''tmp'', ''intern3-docs-clone-1000'']"

definition demo_shell ::
  "bool \<Rightarrow> bool \<Rightarrow> string \<Rightarrow> path \<Rightarrow> filesystem \<Rightarrow> filesystem \<times> string option" where
  "demo_shell has_docs find_ok cmd dir f =
     (if cmd = ''git checkout''
      then ((if has_docs
             then f(demo_tempDir @ [''docs''] \<mapsto> Dir,
                    demo_tempDir @ [''docs'', ''guide.md''] \<mapsto> File ''hello'')
             else f(demo_tempDir @ [''README.md''] \<mapsto> File ''readme'')), Some [])
      else if take 9 cmd = ''git clone'' then (f(demo_tempDir \<mapsto> Dir), Some [])
      else if cmd = find_checked_out \<or> cmd = find_target
      then (f, if find_ok then Some ''./docs/guide.md'' else None)
      else (f, Some []))"

definition demo_env :: "bool \<Rightarrow> bool \<Rightarrow> bool \<Rightarrow> env" where
  "demo_env has_docs find_ok rm_ok =
     \<lparr>tmpdir = [''tmp''], cwd = [''site''], clock = 1000,
      shell = demo_shell has_docs find_ok,
      fs_fault = (\<lambda>c f. \<not> rm_ok \<and> c = RmSync demo_tempDir)\<rparr>"

definition demo_fs :: filesystem where
  "demo_fs = [[''site'', ''content'', ''docs''] \<mapsto> Dir,
              [''site'', ''content'', ''docs'', ''old.md''] \<mapsto> File ''stale'']"

definition demo_world :: world where
  "demo_world = \<lparr>fs = demo_fs, stdout = [], stderr = [], calls = []\<rparr>"


text \<open>The same project with a directory left at the path of the clone.\<close>

definition stale_world :: world where
  "stale_world = \<lparr>fs = demo_fs(demo_tempDir \<mapsto> Dir), stdout = [], stderr = [], calls = []\<rparr>"

section \<open>Auxiliary facts\<close>

subsection \<open>Paths and sequences of statements\<close>

lemma resolve_target: "resolve e TARGET_DOCS_DIR = cwd e @ [''content'', ''docs'']"
  by (simp add: resolve_def TARGET_DOCS_DIR_def)

lemma resolve_content: "resolve e ''./content'' = cwd e @ [''content'']"
  by (simp add: resolve_def)

lemma derive_tempDir_fst:
  "fst (derive_tempDir e w) = tmpdir e @ [''intern3-docs-clone-'' @ show_nat (clock e)]"
  by (simp add: derive_tempDir_def date_now_def join_def)

lemma derive_tempDir_snd: "snd (derive_tempDir e w) = record_call DateNow True w"
  by (simp add: derive_tempDir_def date_now_def)

lemma run_steps_append:
  "run_steps (xs @ ys) w =
     (case run_steps xs w of (Some err, w') \<Rightarrow> (Some err, w') | (None, w') \<Rightarrow> run_steps ys w')"
  by (induction xs arbitrary: w) (auto split: prod.splits option.splits)

lemma list_all_butlast: "list_all P xs \<Longrightarrow> list_all P (butlast xs)"
  by (auto simp: list_all_iff dest: in_set_butlastD)

lemma step_traceI:
  assumes "\<And>w. \<exists>tr. calls (snd (s w)) = calls w @ tr \<and> subseq (map fst tr) pl
             \<and> list_all ok_or_diag (butlast tr)
             \<and> (fst (s w) = None \<longrightarrow> list_all ok_or_diag tr)"
  shows "step_trace s pl"
  using assms by (simp add: step_trace_def)

lemma step_traceD:
  assumes "step_trace s pl"
  shows "\<exists>tr. calls (snd (s w)) = calls w @ tr \<and> subseq (map fst tr) pl
             \<and> list_all ok_or_diag (butlast tr)
             \<and> (fst (s w) = None \<longrightarrow> list_all ok_or_diag tr)"
  using assms unfolding step_trace_def by blast

lemma step_trace_silent:
  assumes "\<And>w. calls (snd (s w)) = calls w"
  shows "step_trace s []"
proof (rule step_traceI)
  fix w
  show "\<exists>tr. calls (snd (s w)) = calls w @ tr \<and> subseq (map fst tr) []
             \<and> list_all ok_or_diag (butlast tr)
             \<and> (fst (s w) = None \<longrightarrow> list_all ok_or_diag tr)"
    by (rule exI [of _ "[]"]) (simp add: assms)
qed

lemma step_trace_log: "step_trace (log m) []"
  by (rule step_trace_silent) (simp add: log_def console_log_def)

lemma step_trace_single:
  assumes "\<And>w. (calls (snd (s w)) = calls w @ [(c, True)])
             \<or> (calls (snd (s w)) = calls w @ [(c, False)] \<and> (fst (s w) \<noteq> None \<or> diagnostic c))
             \<or> calls (snd (s w)) = calls w"
  shows "step_trace s [c]"
proof (rule step_traceI)
  fix w
  from assms [of w] consider
    (ok) "calls (snd (s w)) = calls w @ [(c, True)]"
    | (bad) "calls (snd (s w)) = calls w @ [(c, False)]" "fst (s w) \<noteq> None \<or> diagnostic c"
    | (none) "calls (snd (s w)) = calls w"
    by blast
  then show "\<exists>tr. calls (snd (s w)) = calls w @ tr \<and> subseq (map fst tr) [c]
             \<and> list_all ok_or_diag (butlast tr)
             \<and> (fst (s w) = None \<longrightarrow> list_all ok_or_diag tr)"
  proof cases
    case ok
    then show ?thesis by (intro exI [of _ "[(c, True)]"]) (simp add: ok_or_diag_def)
  next
    case bad
    then show ?thesis by (intro exI [of _ "[(c, False)]"]) (auto simp: ok_or_diag_def)
  next
    case none
    then show ?thesis by (intro exI [of _ "[]"]) simp
  qed
qed

lemma step_trace_rmSync: "step_trace (rmSync e p) [RmSync p]"
  by (rule step_trace_single) (simp add: rmSync_def record_call_def)

lemma step_trace_mkdirSync: "step_trace (mkdirSync e p) [MkdirSync p]"
  by (rule step_trace_single) (simp add: mkdirSync_def record_call_def)

lemma step_trace_cpSync: "step_trace (cpSync e src dst) [CpSync src dst]"
  by (rule step_trace_single) (simp add: cpSync_def record_call_def)

lemma step_trace_execSync_inherit: "step_trace (execSync_inherit e cmd dir) [ExecSync cmd dir]"
  by (rule step_trace_single)
     (simp add: execSync_inherit_def record_call_def split: prod.splits option.splits)

lemma step_trace_clear_target: "step_trace (clear_target e) [RmSync (resolve e TARGET_DOCS_DIR)]"
  by (rule step_trace_single) (simp add: clear_target_def rmSync_def record_call_def console_log_def)

lemma step_trace_verify_checkout:
  "step_trace (verify_checkout e tempDir) [ExecSync find_checked_out tempDir]"
  by (rule step_trace_single)
     (simp add: verify_checkout_def execSync_utf8_def record_call_def console_log_def diagnostic_def
           split: prod.splits option.splits)

lemma step_trace_list_target: "step_trace (list_target e) [ExecSync find_target (cwd e)]"
  by (rule step_trace_single)
     (simp add: list_target_def execSync_utf8_def record_call_def console_log_def diagnostic_def
           split: prod.splits option.splits)

lemma step_trace_Nil: "step_trace (run_steps []) []"
  by (rule step_trace_silent) simp

lemma run_steps_Cons_Some:
  "fst (s w) = Some err \<Longrightarrow> run_steps (s # ss) w = (Some err, snd (s w))"
  by (cases "s w") simp

lemma run_steps_Cons_None:
  "fst (s w) = None \<Longrightarrow> run_steps (s # ss) w = run_steps ss (snd (s w))"
  by (cases "s w") simp

lemma subseq_appendI1: "subseq xs p1 \<Longrightarrow> subseq xs (p1 @ p2)"
  using list_emb_append_mono [of "(=)" xs p1 "[]" p2] by simp

lemma step_trace_Cons:
  assumes s: "step_trace s p1" and ss: "step_trace (run_steps ss) p2"
  shows "step_trace (run_steps (s # ss)) (p1 @ p2)"
proof (rule step_traceI)
  fix w
  from step_traceD [OF s, of w] obtain tr1 where
    h1: "calls (snd (s w)) = calls w @ tr1 \<and> subseq (map fst tr1) p1
          \<and> list_all ok_or_diag (butlast tr1)
          \<and> (fst (s w) = None \<longrightarrow> list_all ok_or_diag tr1)" ..
  note c1 = h1 [THEN conjunct1] and s1 = h1 [THEN conjunct2, THEN conjunct1]
    and b1 = h1 [THEN conjunct2, THEN conjunct2, THEN conjunct1]
    and a1 = h1 [THEN conjunct2, THEN conjunct2, THEN conjunct2]
  show "\<exists>tr. calls (snd (run_steps (s # ss) w)) = calls w @ tr \<and> subseq (map fst tr) (p1 @ p2)
             \<and> list_all ok_or_diag (butlast tr)
             \<and> (fst (run_steps (s # ss) w) = None \<longrightarrow> list_all ok_or_diag tr)"
  proof (cases "fst (s w)")
    case (Some err)
    have run: "run_steps (s # ss) w = (Some err, snd (s w))"
      using Some by (rule run_steps_Cons_Some)
    have f1: "calls (snd (run_steps (s # ss) w)) = calls w @ tr1"
      by (simp only: run snd_conv c1)
    have f2: "subseq (map fst tr1) (p1 @ p2)"
      using s1 by (rule subseq_appendI1)
    have f4: "fst (run_steps (s # ss) w) = None \<longrightarrow> list_all ok_or_diag tr1"
      by (simp only: run fst_conv) simp
    from f1 f2 b1 f4 show ?thesis
      by - (rule exI [of _ tr1], (intro conjI; assumption))
  next
    case None
    have run: "run_steps (s # ss) w = run_steps ss (snd (s w))"
      using None by (rule run_steps_Cons_None)
    from step_traceD [OF ss, of "snd (s w)"] obtain tr2 where
      h2: "calls (snd (run_steps ss (snd (s w)))) = calls (snd (s w)) @ tr2
            \<and> subseq (map fst tr2) p2 \<and> list_all ok_or_diag (butlast tr2)
            \<and> (fst (run_steps ss (snd (s w))) = None \<longrightarrow> list_all ok_or_diag tr2)" ..
    note c2 = h2 [THEN conjunct1] and s2 = h2 [THEN conjunct2, THEN conjunct1]
      and b2 = h2 [THEN conjunct2, THEN conjunct2, THEN conjunct1]
      and a2 = h2 [THEN conjunct2, THEN conjunct2, THEN conjunct2]
    have all1: "list_all ok_or_diag tr1"
      using a1 None by simp
    have f1: "calls (snd (run_steps (s # ss) w)) = calls w @ (tr1 @ tr2)"
      by (simp only: run c2 c1 append_assoc)
    have f2: "subseq (map fst (tr1 @ tr2)) (p1 @ p2)"
      using s1 s2 by (simp add: list_emb_append_mono)
    have f3: "list_all ok_or_diag (butlast (tr1 @ tr2))"
      using all1 b2 by (cases "tr2 = []") (simp_all add: butlast_append list_all_butlast)
    have f4: "fst (run_steps (s # ss) w) = None \<longrightarrow> list_all ok_or_diag (tr1 @ tr2)"
      using a2 all1 by (simp only: run) simp
    from f1 f2 f3 f4 show ?thesis
      by - (rule exI [of _ "tr1 @ tr2"], (intro conjI; assumption))
  qed
qed


lemma step_trace_weaken:
  assumes "step_trace s pl" and "subseq pl pl'"
  shows "step_trace s pl'"
proof (rule step_traceI)
  fix w
  from step_traceD [OF assms(1), of w] obtain tr where
    h: "calls (snd (s w)) = calls w @ tr \<and> subseq (map fst tr) pl
          \<and> list_all ok_or_diag (butlast tr)
          \<and> (fst (s w) = None \<longrightarrow> list_all ok_or_diag tr)" ..
  have "subseq (map fst tr) pl'"
    using h [THEN conjunct2, THEN conjunct1] assms(2) by (rule subseq_order.trans)
  with h show "\<exists>tr. calls (snd (s w)) = calls w @ tr \<and> subseq (map fst tr) pl'
             \<and> list_all ok_or_diag (butlast tr)
             \<and> (fst (s w) = None \<longrightarrow> list_all ok_or_diag tr)"
    by - (rule exI [of _ tr], simp)
qed

lemma step_trace_if:
  assumes "step_trace a pl" and "step_trace b pl"
  shows "step_trace (\<lambda>w. if c w then a w else b w) pl"
proof (rule step_traceI)
  fix w
  show "\<exists>tr. calls (snd (if c w then a w else b w)) = calls w @ tr \<and> subseq (map fst tr) pl
             \<and> list_all ok_or_diag (butlast tr)
             \<and> (fst (if c w then a w else b w) = None \<longrightarrow> list_all ok_or_diag tr)"
    using step_traceD [OF assms(1), of w] step_traceD [OF assms(2), of w]
    by (cases "c w") simp_all
qed

lemma step_trace_copy_docs:
  "step_trace (copy_docs e tempDir)
     [MkdirSync (resolve e ''./content''),
      CpSync (join tempDir ''docs'') (resolve e TARGET_DOCS_DIR),
      ExecSync find_target (cwd e)]"
proof -
  let ?pl = "[MkdirSync (resolve e ''./content''),
      CpSync (join tempDir ''docs'') (resolve e TARGET_DOCS_DIR),
      ExecSync find_target (cwd e)]"
  have "step_trace
          (run_steps
             [log ''Copying docs folder to target location...'',
              mkdirSync e (resolve e ''./content''),
              cpSync e (join tempDir ''docs'') (resolve e TARGET_DOCS_DIR),
              log ''Successfully copied docs folder to ./content/docs'',
              log ''Final result - files in ./content/docs:'',
              list_target e])
          ([] @ [MkdirSync (resolve e ''./content'')]
              @ [CpSync (join tempDir ''docs'') (resolve e TARGET_DOCS_DIR)]
              @ [] @ [] @ [ExecSync find_target (cwd e)] @ [])"
    by (intro step_trace_Cons step_trace_Nil step_trace_log step_trace_mkdirSync
          step_trace_cpSync step_trace_list_target)
  then have a: "step_trace
          (run_steps
             [log ''Copying docs folder to target location...'',
              mkdirSync e (resolve e ''./content''),
              cpSync e (join tempDir ''docs'') (resolve e TARGET_DOCS_DIR),
              log ''Successfully copied docs folder to ./content/docs'',
              log ''Final result - files in ./content/docs:'',
              list_target e]) ?pl"
    by simp
  have "step_trace (\<lambda>w. (Some docs_not_found, w)) []"
    by (rule step_trace_silent) simp
  then have b: "step_trace (\<lambda>w. (Some docs_not_found, w)) ?pl"
    by (rule step_trace_weaken) simp
  have "copy_docs e tempDir =
          (\<lambda>w. if existsSync (join tempDir ''docs'') w
               then run_steps
             [log ''Copying docs folder to target location...'',
              mkdirSync e (resolve e ''./content''),
              cpSync e (join tempDir ''docs'') (resolve e TARGET_DOCS_DIR),
              log ''Successfully copied docs folder to ./content/docs'',
              log ''Final result - files in ./content/docs:'',
              list_target e] w
               else (Some docs_not_found, w))"
    by (rule ext) (simp add: copy_docs_def Let_def)
  then show ?thesis
    using step_trace_if [OF a b] by simp
qed

lemma step_trace_try_block:
  "step_trace (try_block e tempDir)
     [RmSync (resolve e TARGET_DOCS_DIR),
      ExecSync (clone_cmd tempDir) (cwd e),
      ExecSync ''git config core.sparseCheckout true'' tempDir,
      ExecSync ''git sparse-checkout init --cone'' tempDir,
      ExecSync ''git sparse-checkout set docs'' tempDir,
      ExecSync ''git checkout'' tempDir,
      ExecSync find_checked_out tempDir,
      MkdirSync (resolve e ''./content''),
      CpSync (join tempDir ''docs'') (resolve e TARGET_DOCS_DIR),
      ExecSync find_target (cwd e)]"
proof -
  have "step_trace
          (run_steps
             [log ''Starting optimized sparse clone of docs folder...'',
              clear_target e,
              log (''Creating optimized sparse clone in: '' @ path_str tempDir),
              execSync_inherit e (clone_cmd tempDir) (cwd e),
              execSync_inherit e ''git config core.sparseCheckout true'' tempDir,
              execSync_inherit e ''git sparse-checkout init --cone'' tempDir,
              execSync_inherit e ''git sparse-checkout set docs'' tempDir,
              log ''Checking out only docs folder...'',
              execSync_inherit e ''git checkout'' tempDir,
              log ''Verifying sparse checkout contents...'',
              verify_checkout e tempDir,
              copy_docs e tempDir])
     ([] @ [RmSync (resolve e TARGET_DOCS_DIR)] @ []
      @ [ExecSync (clone_cmd tempDir) (cwd e)]
      @ [ExecSync ''git config core.sparseCheckout true'' tempDir]
      @ [ExecSync ''git sparse-checkout init --cone'' tempDir]
      @ [ExecSync ''git sparse-checkout set docs'' tempDir]
      @ [] @ [ExecSync ''git checkout'' tempDir] @ []
      @ [ExecSync find_checked_out tempDir]
      @ [MkdirSync (resolve e ''./content''),
         CpSync (join tempDir ''docs'') (resolve e TARGET_DOCS_DIR),
         ExecSync find_target (cwd e)] @ [])"
    by (intro step_trace_Cons step_trace_Nil step_trace_log step_trace_clear_target
          step_trace_execSync_inherit step_trace_verify_checkout step_trace_copy_docs)
  then show ?thesis
    by (simp add: try_block_def checkout_steps_def)
qed

lemma step_trace_finally_block: "step_trace (finally_block e tempDir) [RmSync tempDir]"
  by (rule step_trace_single) (simp add: finally_block_def rmSync_def record_call_def console_log_def)

lemma step_trace_date: "step_trace (\<lambda>w. (None, snd (derive_tempDir e w))) [DateNow]"
  by (rule step_trace_single) (simp add: derive_tempDir_snd record_call_def)

lemma main_as_steps:
  "calls (snd (main e w)) =
     calls (snd (run_steps [\<lambda>w. (None, snd (derive_tempDir e w)),
                            try_block e (fst (derive_tempDir e w)),
                            finally_block e (fst (derive_tempDir e w))] w))
   \<and> (fst (main e w) = 0) =
       (fst (run_steps [\<lambda>w. (None, snd (derive_tempDir e w)),
                            try_block e (fst (derive_tempDir e w)),
                            finally_block e (fst (derive_tempDir e w))] w) = None)"
  by (simp add: main_def sparseCloneDocs_def console_log_def console_error_def
        split: prod.splits option.splits)

lemma step_trace_script:
  "step_trace (run_steps [\<lambda>w. (None, snd (derive_tempDir e w)),
                            try_block e (fst (derive_tempDir e w0)),
                            finally_block e (fst (derive_tempDir e w0))]) (plan e)"
proof -
  have t: "fst (derive_tempDir e w0) = join (tmpdir e) (''intern3-docs-clone-'' @ show_nat (clock e))"
    by (simp add: derive_tempDir_fst join_def)
  have "step_trace (run_steps [\<lambda>w. (None, snd (derive_tempDir e w)),
                            try_block e (fst (derive_tempDir e w0)),
                            finally_block e (fst (derive_tempDir e w0))])
          ([DateNow] @ [RmSync (resolve e TARGET_DOCS_DIR),
      ExecSync (clone_cmd (fst (derive_tempDir e w0))) (cwd e),
      ExecSync ''git config core.sparseCheckout true'' (fst (derive_tempDir e w0)),
      ExecSync ''git sparse-checkout init --cone'' (fst (derive_tempDir e w0)),
      ExecSync ''git sparse-checkout set docs'' (fst (derive_tempDir e w0)),
      ExecSync ''git checkout'' (fst (derive_tempDir e w0)),
      ExecSync find_checked_out (fst (derive_tempDir e w0)),
      MkdirSync (resolve e ''./content''),
      CpSync (join (fst (derive_tempDir e w0)) ''docs'') (resolve e TARGET_DOCS_DIR),
      ExecSync find_target (cwd e)] @ [RmSync (fst (derive_tempDir e w0))] @ [])"
    by (intro step_trace_Cons step_trace_Nil step_trace_date step_trace_try_block
          step_trace_finally_block)
  then show ?thesis
    by (simp add: plan_def Let_def t)
qed

lemma main_trace:
  "calls (snd (main e w)) = calls w @ trace_of e w
   \<and> subseq (map fst (trace_of e w)) (plan e)
   \<and> list_all ok_or_diag (butlast (trace_of e w))
   \<and> (fst (main e w) = 0 \<longrightarrow> list_all ok_or_diag (trace_of e w))"
proof -
  let ?run = "run_steps [\<lambda>w. (None, snd (derive_tempDir e w)),
                            try_block e (fst (derive_tempDir e w)),
                            finally_block e (fst (derive_tempDir e w))]"
  from step_traceD [OF step_trace_script [of e w], of w] obtain tr where
    h: "calls (snd (?run w)) = calls w @ tr \<and> subseq (map fst tr) (plan e)
          \<and> list_all ok_or_diag (butlast tr)
          \<and> (fst (?run w) = None \<longrightarrow> list_all ok_or_diag tr)" ..
  have c: "calls (snd (main e w)) = calls w @ tr"
    using main_as_steps [of e w, THEN conjunct1] h [THEN conjunct1] by simp
  then have tr: "trace_of e w = tr"
    by (simp add: trace_of_def)
  have z: "fst (main e w) = 0 \<longrightarrow> list_all ok_or_diag tr"
    using main_as_steps [of e w, THEN conjunct2] h [THEN conjunct2, THEN conjunct2, THEN conjunct2]
    by simp
  show ?thesis
    unfolding tr using c h [THEN conjunct2, THEN conjunct1]
      h [THEN conjunct2, THEN conjunct2, THEN conjunct1] z
    by simp
qed

subsection \<open>The decimal rendering is injective\<close>

lemma show_nat_nonempty: "show_nat n \<noteq> []"
  by (subst show_nat.simps) simp

lemma digit_char_inj:
  assumes "a < 10" "b < 10" "digit_char a = digit_char b"
  shows "a = b"
proof -
  have d: "distinct ''0123456789''" by simp
  have "length ''0123456789'' = 10" by simp
  with assms d show ?thesis
    unfolding digit_char_def by (simp only: nth_eq_iff_index_eq)
qed

lemma show_nat_inj: "show_nat m = show_nat n \<Longrightarrow> m = n"
proof (induction m arbitrary: n rule: show_nat.induct)
  case (1 m)
  show ?case
  proof (cases "m < 10")
    case True
    then have m: "show_nat m = [digit_char m]"
      by (subst show_nat.simps) simp
    show ?thesis
    proof (cases "n < 10")
      case n: True
      then have "show_nat n = [digit_char n]"
        by (subst show_nat.simps) simp
      with m "1.prems" have "digit_char m = digit_char n" by simp
      with True n show ?thesis by (rule digit_char_inj)
    next
      case False
      then have "show_nat n = show_nat (n div 10) @ [digit_char (n mod 10)]"
        by (subst show_nat.simps) simp
      with m "1.prems" have "show_nat (n div 10) = []" by simp
      then show ?thesis by (simp add: show_nat_nonempty)
    qed
  next
    case False
    then have m: "show_nat m = show_nat (m div 10) @ [digit_char (m mod 10)]"
      by (subst show_nat.simps) simp
    show ?thesis
    proof (cases "n < 10")
      case True
      then have "show_nat n = [digit_char n]"
        by (subst show_nat.simps) simp
      with m "1.prems" have "show_nat (m div 10) = []" by simp
      then show ?thesis by (simp add: show_nat_nonempty)
    next
      case n: False
      then have "show_nat n = show_nat (n div 10) @ [digit_char (n mod 10)]"
        by (subst show_nat.simps) simp
      with m "1.prems" have eq: "show_nat (m div 10) = show_nat (n div 10)"
        and dg: "digit_char (m mod 10) = digit_char (n mod 10)"
        by simp_all
      from "1.IH" [OF False eq] have q: "m div 10 = n div 10" .
      have r: "m mod 10 = n mod 10"
        using dg by (intro digit_char_inj) simp_all
      from q r show ?thesis
        by (metis div_mult_mod_eq)
    qed
  qed
qed


subsection \<open>Evaluation on explicit worlds\<close>

lemma console_log_w:
  "console_log s \<lparr>fs = f, stdout = out, stderr = er, calls = cs\<rparr>
     = \<lparr>fs = f, stdout = out @ [s], stderr = er, calls = cs\<rparr>"
  by (simp add: console_log_def)

lemma console_error_w:
  "console_error s e \<lparr>fs = f, stdout = out, stderr = er, calls = cs\<rparr>
     = \<lparr>fs = f, stdout = out, stderr = er @ [(s, e)], calls = cs\<rparr>"
  by (simp add: console_error_def)

lemma log_w:
  "log s \<lparr>fs = f, stdout = out, stderr = er, calls = cs\<rparr>
     = (None, \<lparr>fs = f, stdout = out @ [s], stderr = er, calls = cs\<rparr>)"
  by (simp add: log_def console_log_def)

lemma date_now_w:
  "date_now e \<lparr>fs = f, stdout = out, stderr = er, calls = cs\<rparr>
     = (clock e, \<lparr>fs = f, stdout = out, stderr = er, calls = cs @ [(DateNow, True)]\<rparr>)"
  by (simp add: date_now_def record_call_def)

lemma existsSync_w:
  "existsSync p \<lparr>fs = f, stdout = out, stderr = er, calls = cs\<rparr> \<longleftrightarrow> f p \<noteq> None"
  by (simp add: existsSync_def)

lemma rmSync_w:
  "rmSync e p \<lparr>fs = f, stdout = out, stderr = er, calls = cs\<rparr> =
     (if fs_fault e (RmSync p) f
      then (Some (FsFailed (RmSync p)),
            \<lparr>fs = f, stdout = out, stderr = er, calls = cs @ [(RmSync p, False)]\<rparr>)
      else (None,
            \<lparr>fs = (\<lambda>q. if prefix p q then None else f q), stdout = out, stderr = er,
             calls = cs @ [(RmSync p, True)]\<rparr>))"
  by (simp add: rmSync_def record_call_def cong del: if_weak_cong)

lemma mkdirSync_w:
  "mkdirSync e p \<lparr>fs = f, stdout = out, stderr = er, calls = cs\<rparr> =
     (if fs_fault e (MkdirSync p) f \<or> list_ex (\<lambda>q. is_file (f q)) (prefixes p)
      then (Some (FsFailed (MkdirSync p)),
            \<lparr>fs = f, stdout = out, stderr = er, calls = cs @ [(MkdirSync p, False)]\<rparr>)
      else (None,
            \<lparr>fs = (\<lambda>q. if prefix q p \<and> f q = None then Some Dir else f q), stdout = out,
             stderr = er, calls = cs @ [(MkdirSync p, True)]\<rparr>))"
  by (simp add: mkdirSync_def record_call_def cong del: if_weak_cong)

lemma cpSync_w:
  "cpSync e src dst \<lparr>fs = f, stdout = out, stderr = er, calls = cs\<rparr> =
     (if fs_fault e (CpSync src dst) f
      then (Some (FsFailed (CpSync src dst)),
            \<lparr>fs = f, stdout = out, stderr = er, calls = cs @ [(CpSync src dst, False)]\<rparr>)
      else (None,
            \<lparr>fs = (\<lambda>q. if prefix dst q
                         then (case f (src @ drop (length dst) q) of
                                 Some n \<Rightarrow> Some n
                               | None \<Rightarrow> f q)
                         else f q),
             stdout = out, stderr = er, calls = cs @ [(CpSync src dst, True)]\<rparr>))"
  by (auto simp: cpSync_def record_call_def fun_eq_iff split: option.splits)

lemma execSync_inherit_w:
  "execSync_inherit e cmd dir \<lparr>fs = f, stdout = out, stderr = er, calls = cs\<rparr> =
     (case shell e cmd dir f of
        (f', None) \<Rightarrow>
          (Some (CommandFailed cmd dir),
           \<lparr>fs = f', stdout = out, stderr = er, calls = cs @ [(ExecSync cmd dir, False)]\<rparr>)
      | (f', Some x) \<Rightarrow>
          (None,
           \<lparr>fs = f', stdout = out @ [x], stderr = er, calls = cs @ [(ExecSync cmd dir, True)]\<rparr>))"
  by (simp add: execSync_inherit_def record_call_def split: prod.splits option.splits)

lemma execSync_utf8_w:
  "execSync_utf8 e cmd dir \<lparr>fs = f, stdout = out, stderr = er, calls = cs\<rparr> =
     (case shell e cmd dir f of
        (f', None) \<Rightarrow>
          (Inl (CommandFailed cmd dir),
           \<lparr>fs = f', stdout = out, stderr = er, calls = cs @ [(ExecSync cmd dir, False)]\<rparr>)
      | (f', Some x) \<Rightarrow>
          (Inr x,
           \<lparr>fs = f', stdout = out, stderr = er, calls = cs @ [(ExecSync cmd dir, True)]\<rparr>))"
  by (simp add: execSync_utf8_def record_call_def split: prod.splits option.splits)

lemmas eval_world = console_log_w console_error_w log_w date_now_w existsSync_w rmSync_w
  mkdirSync_w cpSync_w execSync_inherit_w execSync_utf8_w

lemmas eval_script = run_steps.simps(2) main_def sparseCloneDocs_def try_block_def finally_block_def
  checkout_steps_def copy_docs_def list_target_def verify_checkout_def clear_target_def
  derive_tempDir_def resolve_def join_def TARGET_DOCS_DIR_def clone_cmd_def REPO_URL_def
  path_str_def find_checked_out_def find_target_def is_file_def Let_def

lemma show_nat_1000: "show_nat 1000 = ''1000''"
  by (simp add: show_nat.simps digit_char_def)

lemmas eval_demo = demo_env_def demo_shell_def demo_world_def stale_world_def demo_fs_def
  demo_tempDir_def show_nat_1000


subsection \<open>What the steps leave alone\<close>

declare run_steps.simps(2) [simp del]

lemma run_steps_log: "run_steps (log m # ss) w = run_steps ss (console_log m w)"
  by (simp add: run_steps.simps(2) log_def)













subsection \<open>The shape of a run\<close>

lemma run_steps_single: "run_steps [s] w = s w"
  by (cases "s w") (auto simp: run_steps.simps(2) split: option.splits)

lemma try_block_eq:
  "try_block e tempDir w =
     (case run_steps (checkout_steps e tempDir) w of
        (Some err, w1) \<Rightarrow> (Some err, w1)
      | (None, w1) \<Rightarrow> copy_docs e tempDir w1)"
  by (simp add: try_block_def run_steps_append run_steps_single cong del: prod.case_cong
        split: prod.splits option.splits)

lemma sparseCloneDocs_cases:
  "sparseCloneDocs e w =
     (case after_checkout e w of
        (Some err, w1) \<Rightarrow> (Exited 1, console_error ''Error during sparse clone:'' err w1)
      | (None, w1) \<Rightarrow>
          (case copy_docs e (fst (derive_tempDir e w)) w1 of
             (Some err, w2) \<Rightarrow> (Exited 1, console_error ''Error during sparse clone:'' err w2)
           | (None, w2) \<Rightarrow>
               (case finally_block e (fst (derive_tempDir e w)) w2 of
                  (Some err, w3) \<Rightarrow> (Threw err, w3)
                | (None, w3) \<Rightarrow> (Returned, w3))))"
  by (simp add: sparseCloneDocs_def after_checkout_def try_block_eq
        split: prod.splits option.splits)




subsection \<open>Runs that differ only in the listings\<close>

lemma sim_stepI:
  assumes "\<And>w w'. sim w w' \<Longrightarrow> fst (s w) = fst (s' w') \<and> sim (snd (s w)) (snd (s' w'))"
  shows "sim_step s s'"
  using assms by (simp add: sim_step_def)

lemma sim_stepD:
  "sim_step s s' \<Longrightarrow> sim w w' \<Longrightarrow> fst (s w) = fst (s' w') \<and> sim (snd (s w)) (snd (s' w'))"
  by (simp add: sim_step_def)

lemma sim_step_log: "sim_step (log m) (log m')"
  by (simp add: sim_step_def sim_def log_def console_log_def)

lemma sim_step_rmSync: "fs_fault e = fs_fault e' \<Longrightarrow> sim_step (rmSync e p) (rmSync e' p)"
  by (auto simp: sim_step_def sim_def rmSync_def record_call_def cong del: if_weak_cong option.case_cong_weak)

lemma sim_step_mkdirSync: "fs_fault e = fs_fault e' \<Longrightarrow> sim_step (mkdirSync e p) (mkdirSync e' p)"
  by (auto simp: sim_step_def sim_def mkdirSync_def record_call_def cong del: if_weak_cong option.case_cong_weak)

lemma sim_step_cpSync:
  "fs_fault e = fs_fault e' \<Longrightarrow> sim_step (cpSync e src dst) (cpSync e' src dst)"
  by (auto simp: sim_step_def sim_def cpSync_def record_call_def cong del: if_weak_cong option.case_cong_weak)

lemma sim_step_clear_target:
  "same_but_listing e e' \<Longrightarrow> sim_step (clear_target e) (clear_target e')"
  by (auto simp: sim_step_def sim_def same_but_listing_def clear_target_def rmSync_def
        record_call_def console_log_def existsSync_def resolve_def cong del: if_weak_cong)

lemma sim_step_finally_block:
  "same_but_listing e e' \<Longrightarrow> sim_step (finally_block e tempDir) (finally_block e' tempDir)"
  by (auto simp: sim_step_def sim_def same_but_listing_def finally_block_def rmSync_def
        record_call_def console_log_def existsSync_def cong del: if_weak_cong)

lemma sim_step_execSync_inherit:
  assumes "same_but_listing e e'" and "cmd \<noteq> find_checked_out" and "cmd \<noteq> find_target"
  shows "sim_step (execSync_inherit e cmd dir) (execSync_inherit e' cmd dir)"
proof (rule sim_stepI)
  fix w w'
  assume "sim w w'"
  then have f: "fs w' = fs w" and er: "stderr w' = stderr w"
    by (simp_all add: sim_def)
  from assms have a: "fst (shell e' cmd dir (fs w)) = fst (shell e cmd dir (fs w))"
    and b: "(snd (shell e' cmd dir (fs w)) = None) = (snd (shell e cmd dir (fs w)) = None)"
    by (simp_all add: same_but_listing_def)
  show "fst (execSync_inherit e cmd dir w) = fst (execSync_inherit e' cmd dir w')
      \<and> sim (snd (execSync_inherit e cmd dir w)) (snd (execSync_inherit e' cmd dir w'))"
    using a b
    by (cases "shell e cmd dir (fs w)"; cases "shell e' cmd dir (fs w)")
       (auto simp: execSync_inherit_def record_call_def sim_def f er split: option.splits)
qed

lemma sim_step_verify_checkout:
  assumes "same_but_listing e e'"
  shows "sim_step (verify_checkout e tempDir) (verify_checkout e' tempDir)"
proof (rule sim_stepI)
  fix w w'
  assume "sim w w'"
  then have f: "fs w' = fs w" and er: "stderr w' = stderr w"
    by (simp_all add: sim_def)
  from assms have a: "fst (shell e' find_checked_out tempDir (fs w))
      = fst (shell e find_checked_out tempDir (fs w))"
    by (simp add: same_but_listing_def)
  show "fst (verify_checkout e tempDir w) = fst (verify_checkout e' tempDir w')
      \<and> sim (snd (verify_checkout e tempDir w)) (snd (verify_checkout e' tempDir w'))"
    using a
    by (cases "shell e find_checked_out tempDir (fs w)";
        cases "shell e' find_checked_out tempDir (fs w)")
       (auto simp: verify_checkout_def execSync_utf8_def record_call_def console_log_def sim_def
          f er split: option.splits)
qed

lemma sim_step_list_target:
  assumes "same_but_listing e e'"
  shows "sim_step (list_target e) (list_target e')"
proof (rule sim_stepI)
  fix w w'
  assume "sim w w'"
  then have f: "fs w' = fs w" and er: "stderr w' = stderr w"
    by (simp_all add: sim_def)
  from assms have c: "cwd e' = cwd e"
    by (simp add: same_but_listing_def)
  from assms have a: "fst (shell e' find_target (cwd e) (fs w))
      = fst (shell e find_target (cwd e) (fs w))"
    by (simp add: same_but_listing_def)
  show "fst (list_target e w) = fst (list_target e' w')
      \<and> sim (snd (list_target e w)) (snd (list_target e' w'))"
    using a
    by (cases "shell e find_target (cwd e) (fs w)";
        cases "shell e' find_target (cwd e) (fs w)")
       (auto simp: list_target_def execSync_utf8_def record_call_def console_log_def sim_def
          f er c split: option.splits)
qed

lemma sim_step_run_steps:
  "list_all2 sim_step ss ss' \<Longrightarrow> sim_step (run_steps ss) (run_steps ss')"
proof (induction ss ss' rule: list_all2_induct)
  case Nil
  show ?case by (simp add: sim_step_def)
next
  case (Cons s ss s' ss')
  show ?case
  proof (rule sim_stepI)
    fix w w'
    assume "sim w w'"
    with Cons.hyps(1) have h: "fst (s w) = fst (s' w')" "sim (snd (s w)) (snd (s' w'))"
      by (simp_all add: sim_stepD)
    show "fst (run_steps (s # ss) w) = fst (run_steps (s' # ss') w')
        \<and> sim (snd (run_steps (s # ss) w)) (snd (run_steps (s' # ss') w'))"
    proof (cases "fst (s w)")
      case None
      with h have "fst (s' w') = None" by simp
      with None show ?thesis
        using sim_stepD [OF Cons.IH h(2)] by (simp add: run_steps_Cons_None)
    next
      case (Some err)
      with h have "fst (s' w') = Some err" by simp
      with Some show ?thesis
        using h(2) by (simp add: run_steps_Cons_Some)
    qed
  qed
qed

lemma clone_cmd_not_find:
  "clone_cmd tempDir \<noteq> find_checked_out" "clone_cmd tempDir \<noteq> find_target"
  by (simp_all add: clone_cmd_def find_checked_out_def find_target_def)

lemma git_not_find:
  "''git config core.sparseCheckout true'' \<noteq> find_checked_out"
  "''git config core.sparseCheckout true'' \<noteq> find_target"
  "''git sparse-checkout init --cone'' \<noteq> find_checked_out"
  "''git sparse-checkout init --cone'' \<noteq> find_target"
  "''git sparse-checkout set docs'' \<noteq> find_checked_out"
  "''git sparse-checkout set docs'' \<noteq> find_target"
  "''git checkout'' \<noteq> find_checked_out"
  "''git checkout'' \<noteq> find_target"
  by (simp_all add: find_checked_out_def find_target_def)

lemma sim_step_copy_docs:
  assumes "same_but_listing e e'"
  shows "sim_step (copy_docs e tempDir) (copy_docs e' tempDir)"
proof (rule sim_stepI)
  fix w w'
  assume s: "sim w w'"
  from assms have ff: "fs_fault e = fs_fault e'" and r: "resolve e = resolve e'"
    by (simp_all add: same_but_listing_def resolve_def fun_eq_iff)
  have "sim_step
     (run_steps
             [log ''Copying docs folder to target location...'',
              mkdirSync e (resolve e ''./content''),
              cpSync e (join tempDir ''docs'') (resolve e TARGET_DOCS_DIR),
              log ''Successfully copied docs folder to ./content/docs'',
              log ''Final result - files in ./content/docs:'',
              list_target e])
     (run_steps
             [log ''Copying docs folder to target location...'',
              mkdirSync e' (resolve e' ''./content''),
              cpSync e' (join tempDir ''docs'') (resolve e' TARGET_DOCS_DIR),
              log ''Successfully copied docs folder to ./content/docs'',
              log ''Final result - files in ./content/docs:'',
              list_target e'])"
    by (rule sim_step_run_steps)
       (simp add: r [symmetric] sim_step_log sim_step_mkdirSync sim_step_cpSync sim_step_list_target
          ff assms)
  from sim_stepD [OF this s] s
  show "fst (copy_docs e tempDir w) = fst (copy_docs e' tempDir w')
      \<and> sim (snd (copy_docs e tempDir w)) (snd (copy_docs e' tempDir w'))"
    by (simp add: copy_docs_def Let_def existsSync_def sim_def)
qed

lemma sim_step_try_block:
  assumes "same_but_listing e e'"
  shows "sim_step (try_block e tempDir) (try_block e' tempDir)"
proof -
  have c: "cwd e' = cwd e"
    using assms by (simp add: same_but_listing_def)
  show ?thesis
    unfolding try_block_def
    by (rule sim_step_run_steps)
       (simp add: checkout_steps_def c sim_step_log sim_step_clear_target sim_step_execSync_inherit
          sim_step_verify_checkout sim_step_copy_docs clone_cmd_not_find git_not_find assms)
qed

lemma sparseCloneDocs_alt:
  "sparseCloneDocs e w =
     (case try_block e (fst (derive_tempDir e w)) (snd (derive_tempDir e w)) of
        (Some err, w1) \<Rightarrow> (Exited 1, console_error ''Error during sparse clone:'' err w1)
      | (None, w1) \<Rightarrow>
          (case finally_block e (fst (derive_tempDir e w)) w1 of
             (Some err, w2) \<Rightarrow> (Threw err, w2)
           | (None, w2) \<Rightarrow> (Returned, w2)))"
  by (simp add: sparseCloneDocs_def split: prod.splits)

lemma main_sim:
  assumes "same_but_listing e e'"
  shows "fst (main e w) = fst (main e' w) \<and> sim (snd (main e w)) (snd (main e' w))"
proof -
  have t: "fst (derive_tempDir e' w) = fst (derive_tempDir e w)"
    using assms by (simp add: derive_tempDir_fst same_but_listing_def)
  let ?t = "fst (derive_tempDir e w)"
  have w0: "sim (snd (derive_tempDir e w)) (snd (derive_tempDir e' w))"
    by (simp add: derive_tempDir_snd record_call_def sim_def)
  note a = sim_stepD [OF sim_step_try_block [OF assms, of ?t] w0]
  note b = sim_stepD [OF sim_step_finally_block [OF assms, of ?t] a [THEN conjunct2]]
  show ?thesis
    using a b
    by (auto simp: main_def sparseCloneDocs_alt t sim_def console_error_def console_log_def
          split: prod.splits option.splits)
qed

subsection \<open>The error stream\<close>

lemma stderr_run_steps:
  "list_all (\<lambda>s. \<forall>w. stderr (snd (s w)) = stderr w) ss \<Longrightarrow> stderr (snd (run_steps ss w)) = stderr w"
proof (induction ss arbitrary: w)
  case Nil
  show ?case by simp
next
  case (Cons s ss)
  then have s: "stderr (snd (s w)) = stderr w"
    and ss: "stderr (snd (run_steps ss (snd (s w)))) = stderr (snd (s w))"
    by simp_all
  show ?case
    using s ss by (cases "fst (s w)") (simp_all add: run_steps_Cons_None run_steps_Cons_Some)
qed

lemma stderr_log: "stderr (snd (log m w)) = stderr w"
  by (simp add: log_def console_log_def)

lemma stderr_rmSync: "stderr (snd (rmSync e p w)) = stderr w"
  by (simp add: rmSync_def record_call_def)

lemma stderr_mkdirSync: "stderr (snd (mkdirSync e p w)) = stderr w"
  by (simp add: mkdirSync_def record_call_def)

lemma stderr_cpSync: "stderr (snd (cpSync e src dst w)) = stderr w"
  by (simp add: cpSync_def record_call_def)

lemma stderr_execSync_inherit: "stderr (snd (execSync_inherit e cmd dir w)) = stderr w"
  by (simp add: execSync_inherit_def record_call_def split: prod.splits option.splits)

lemma stderr_clear_target: "stderr (snd (clear_target e w)) = stderr w"
  by (simp add: clear_target_def stderr_rmSync console_log_def)

lemma stderr_verify_checkout: "stderr (snd (verify_checkout e tempDir w)) = stderr w"
  by (simp add: verify_checkout_def execSync_utf8_def record_call_def console_log_def
        split: prod.splits option.splits)

lemma stderr_list_target: "stderr (snd (list_target e w)) = stderr w"
  by (simp add: list_target_def execSync_utf8_def record_call_def console_log_def
        split: prod.splits option.splits)

lemma stderr_copy_docs: "stderr (snd (copy_docs e tempDir w)) = stderr w"
  by (simp add: copy_docs_def Let_def stderr_run_steps stderr_log stderr_mkdirSync stderr_cpSync
        stderr_list_target)

lemma stderr_try_block: "stderr (snd (try_block e tempDir w)) = stderr w"
  unfolding try_block_def
  by (rule stderr_run_steps)
     (simp add: checkout_steps_def stderr_log stderr_clear_target stderr_execSync_inherit
        stderr_verify_checkout stderr_copy_docs)

lemma stderr_finally_block: "stderr (snd (finally_block e tempDir w)) = stderr w"
  by (simp add: finally_block_def stderr_rmSync console_log_def)

lemma main_stderr:
  "(fst (main e w) = 0 \<longrightarrow> stderr (snd (main e w)) = stderr w)
   \<and> (fst (main e w) \<noteq> 0 \<longrightarrow> (\<exists>l err. stderr (snd (main e w)) = stderr w @ [(l, err)]))"
proof -
  let ?t = "fst (derive_tempDir e w)"
  let ?w0 = "snd (derive_tempDir e w)"
  have a: "stderr (snd (try_block e ?t ?w0)) = stderr w"
    by (simp add: stderr_try_block derive_tempDir_snd record_call_def)
  have b: "stderr (snd (finally_block e ?t (snd (try_block e ?t ?w0)))) = stderr w"
    by (simp add: stderr_finally_block a)
  show ?thesis
    using a b
    by (auto simp: main_def sparseCloneDocs_alt console_error_def console_log_def
          split: prod.splits option.splits)
qed

lemma main_exit_code:
  "(fst (main e w) = 0 \<or> fst (main e w) = 1)
   \<and> (fst (main e w) = 0) = (fst (sparseCloneDocs e w) = Returned)"
  by (auto simp: main_def sparseCloneDocs_alt split: prod.splits option.splits)

subsection \<open>The world when the clone starts\<close>


lemma after_checkout_eq:
  "after_checkout e w =
     run_steps (checkout_steps e (fst (derive_tempDir e w))) (snd (derive_tempDir e w))"
  by (simp add: after_checkout_def split: prod.splits)



subsection \<open>The calls of the steps, exactly\<close>

lemma step_runI:
  assumes "\<And>w. \<exists>tr. calls (snd (s w)) = calls w @ tr \<and> trace_ok (fst (s w)) tr pl"
  shows "step_run s pl"
  using assms by (simp add: step_run_def)

lemma step_runD:
  "step_run s pl \<Longrightarrow> \<exists>tr. calls (snd (s w)) = calls w @ tr \<and> trace_ok (fst (s w)) tr pl"
  by (simp add: step_run_def)

lemma trace_ok_Nil: "trace_ok None [] []"
  by (simp add: trace_ok_def)

lemma trace_ok_single: "(r = None) = (b \<or> diagnostic c) \<Longrightarrow> trace_ok r [(c, b)] [c]"
  by (auto simp: trace_ok_def ok_or_diag_def)

lemma trace_ok_fail: "trace_ok (Some err) tr p1 \<Longrightarrow> trace_ok (Some err) tr (p1 @ p2)"
  by (auto simp: trace_ok_def prefix_def)

lemma trace_ok_append:
  assumes "trace_ok None tr1 p1" and "trace_ok r tr2 p2"
  shows "trace_ok r (tr1 @ tr2) (p1 @ p2)"
proof -
  from assms(1) have m: "map fst tr1 = p1" and a: "list_all ok_or_diag tr1"
    by (simp_all add: trace_ok_def)
  from assms(2) have p: "prefix (map fst tr2) p2" and b: "list_all ok_or_diag (butlast tr2)"
    and c: "if r = None then map fst tr2 = p2 \<and> list_all ok_or_diag tr2
            else tr2 \<noteq> [] \<and> \<not> ok_or_diag (last tr2)"
    by (simp_all add: trace_ok_def)
  have "list_all ok_or_diag (butlast (tr1 @ tr2))"
    using a b by (cases "tr2 = []") (simp_all add: butlast_append list_all_butlast)
  moreover have "prefix (map fst (tr1 @ tr2)) (p1 @ p2)"
    using p by (simp add: m)
  ultimately show ?thesis
    using c a by (auto simp: trace_ok_def m)
qed

lemma step_run_silent:
  assumes "\<And>w. calls (snd (s w)) = calls w" and "\<And>w. fst (s w) = None"
  shows "step_run s []"
  by (rule step_runI) (simp add: assms trace_ok_Nil)

lemma step_run_log: "step_run (log m) []"
  by (rule step_run_silent) (simp_all add: log_def console_log_def)

lemma step_run_single:
  assumes "\<And>w. \<exists>b. calls (snd (s w)) = calls w @ [(c, b)] \<and> (fst (s w) = None) = (b \<or> diagnostic c)"
  shows "step_run s [c]"
proof (rule step_runI)
  fix w
  from assms [of w] obtain b where
    h: "calls (snd (s w)) = calls w @ [(c, b)] \<and> (fst (s w) = None) = (b \<or> diagnostic c)" ..
  have "trace_ok (fst (s w)) [(c, b)] [c]"
    using h [THEN conjunct2] by (rule trace_ok_single)
  with h show "\<exists>tr. calls (snd (s w)) = calls w @ tr \<and> trace_ok (fst (s w)) tr [c]"
    by - (rule exI [of _ "[(c, b)]"], simp)
qed

lemma step_run_rmSync: "step_run (rmSync e p) [RmSync p]"
  by (rule step_run_single) (simp add: rmSync_def record_call_def diagnostic_def)

lemma step_run_rmSync_logged: "step_run (\<lambda>w. rmSync e p (console_log m w)) [RmSync p]"
  by (rule step_run_single) (simp add: rmSync_def record_call_def console_log_def diagnostic_def)

lemma step_run_mkdirSync: "step_run (mkdirSync e p) [MkdirSync p]"
  by (rule step_run_single) (simp add: mkdirSync_def record_call_def diagnostic_def)

lemma step_run_cpSync: "step_run (cpSync e src dst) [CpSync src dst]"
  by (rule step_run_single) (simp add: cpSync_def record_call_def diagnostic_def)

lemma step_run_execSync_inherit:
  assumes "cmd \<noteq> find_checked_out" and "cmd \<noteq> find_target"
  shows "step_run (execSync_inherit e cmd dir) [ExecSync cmd dir]"
  by (rule step_run_single)
     (simp add: execSync_inherit_def record_call_def diagnostic_def assms
        split: prod.splits option.splits)

lemma step_run_verify_checkout:
  "step_run (verify_checkout e tempDir) [ExecSync find_checked_out tempDir]"
  by (rule step_run_single)
     (auto simp: verify_checkout_def execSync_utf8_def record_call_def console_log_def diagnostic_def
        split: prod.splits option.splits)

lemma step_run_list_target: "step_run (list_target e) [ExecSync find_target (cwd e)]"
  by (rule step_run_single)
     (auto simp: list_target_def execSync_utf8_def record_call_def console_log_def diagnostic_def
        split: prod.splits option.splits)

lemma step_run_Nil: "step_run (run_steps []) []"
  by (rule step_run_silent) simp_all

lemma step_run_Cons:
  assumes s: "step_run s p1" and ss: "step_run (run_steps ss) p2"
  shows "step_run (run_steps (s # ss)) (p1 @ p2)"
proof (rule step_runI)
  fix w
  from step_runD [OF s, of w] obtain tr1 where
    h1: "calls (snd (s w)) = calls w @ tr1 \<and> trace_ok (fst (s w)) tr1 p1" ..
  show "\<exists>tr. calls (snd (run_steps (s # ss) w)) = calls w @ tr
          \<and> trace_ok (fst (run_steps (s # ss) w)) tr (p1 @ p2)"
  proof (cases "fst (s w)")
    case (Some err)
    have run: "run_steps (s # ss) w = (Some err, snd (s w))"
      using Some by (rule run_steps_Cons_Some)
    have "trace_ok (Some err) tr1 (p1 @ p2)"
      using h1 [THEN conjunct2] Some by (simp add: trace_ok_fail)
    with h1 show ?thesis
      by - (rule exI [of _ tr1], simp add: run)
  next
    case None
    have run: "run_steps (s # ss) w = run_steps ss (snd (s w))"
      using None by (rule run_steps_Cons_None)
    from step_runD [OF ss, of "snd (s w)"] obtain tr2 where
      h2: "calls (snd (run_steps ss (snd (s w)))) = calls (snd (s w)) @ tr2
            \<and> trace_ok (fst (run_steps ss (snd (s w)))) tr2 p2" ..
    have "trace_ok (fst (run_steps ss (snd (s w)))) (tr1 @ tr2) (p1 @ p2)"
      using h1 [THEN conjunct2] h2 [THEN conjunct2] None by (simp add: trace_ok_append)
    with h1 h2 show ?thesis
      by - (rule exI [of _ "tr1 @ tr2"], simp add: run)
  qed
qed

lemma checkout_rest_run:
  "step_run
     (run_steps
        [log (''Creating optimized sparse clone in: '' @ path_str tempDir),
         execSync_inherit e (clone_cmd tempDir) (cwd e),
         execSync_inherit e ''git config core.sparseCheckout true'' tempDir,
         execSync_inherit e ''git sparse-checkout init --cone'' tempDir,
         execSync_inherit e ''git sparse-checkout set docs'' tempDir,
         log ''Checking out only docs folder...'',
         execSync_inherit e ''git checkout'' tempDir,
         log ''Verifying sparse checkout contents...'',
         verify_checkout e tempDir])
     [ExecSync (clone_cmd tempDir) (cwd e),
      ExecSync ''git config core.sparseCheckout true'' tempDir,
      ExecSync ''git sparse-checkout init --cone'' tempDir,
      ExecSync ''git sparse-checkout set docs'' tempDir,
      ExecSync ''git checkout'' tempDir,
      ExecSync find_checked_out tempDir]"
proof -
  have "step_run
     (run_steps
        [log (''Creating optimized sparse clone in: '' @ path_str tempDir),
         execSync_inherit e (clone_cmd tempDir) (cwd e),
         execSync_inherit e ''git config core.sparseCheckout true'' tempDir,
         execSync_inherit e ''git sparse-checkout init --cone'' tempDir,
         execSync_inherit e ''git sparse-checkout set docs'' tempDir,
         log ''Checking out only docs folder...'',
         execSync_inherit e ''git checkout'' tempDir,
         log ''Verifying sparse checkout contents...'',
         verify_checkout e tempDir])
     ([] @ [ExecSync (clone_cmd tempDir) (cwd e)]
      @ [ExecSync ''git config core.sparseCheckout true'' tempDir]
      @ [ExecSync ''git sparse-checkout init --cone'' tempDir]
      @ [ExecSync ''git sparse-checkout set docs'' tempDir]
      @ [] @ [ExecSync ''git checkout'' tempDir] @ []
      @ [ExecSync find_checked_out tempDir] @ [])"
    by (intro step_run_Cons step_run_Nil step_run_log step_run_execSync_inherit
          step_run_verify_checkout clone_cmd_not_find git_not_find)
  then show ?thesis
    by simp
qed

lemma copy_steps_run:
  "step_run
     (run_steps
        [log ''Copying docs folder to target location...'',
         mkdirSync e (resolve e ''./content''),
         cpSync e (join tempDir ''docs'') (resolve e TARGET_DOCS_DIR),
         log ''Successfully copied docs folder to ./content/docs'',
         log ''Final result - files in ./content/docs:'',
         list_target e])
     [MkdirSync (resolve e ''./content''),
      CpSync (join tempDir ''docs'') (resolve e TARGET_DOCS_DIR),
      ExecSync find_target (cwd e)]"
proof -
  have "step_run
     (run_steps
        [log ''Copying docs folder to target location...'',
         mkdirSync e (resolve e ''./content''),
         cpSync e (join tempDir ''docs'') (resolve e TARGET_DOCS_DIR),
         log ''Successfully copied docs folder to ./content/docs'',
         log ''Final result - files in ./content/docs:'',
         list_target e])
     ([] @ [MkdirSync (resolve e ''./content'')]
      @ [CpSync (join tempDir ''docs'') (resolve e TARGET_DOCS_DIR)]
      @ [] @ [] @ [ExecSync find_target (cwd e)] @ [])"
    by (intro step_run_Cons step_run_Nil step_run_log step_run_mkdirSync step_run_cpSync
          step_run_list_target)
  then show ?thesis
    by simp
qed

lemma after_checkout_run:
  "\<exists>tr. calls (snd (after_checkout e w)) = calls w @ tr
        \<and> trace_ok (fst (after_checkout e w)) tr (checkout_plan e w)"
proof -
  let ?t = "fst (derive_tempDir e w)"
  let ?T = "resolve e TARGET_DOCS_DIR"
  define rest where "rest =
        [log (''Creating optimized sparse clone in: '' @ path_str ?t),
         execSync_inherit e (clone_cmd ?t) (cwd e),
         execSync_inherit e ''git config core.sparseCheckout true'' ?t,
         execSync_inherit e ''git sparse-checkout init --cone'' ?t,
         execSync_inherit e ''git sparse-checkout set docs'' ?t,
         log ''Checking out only docs folder...'',
         execSync_inherit e ''git checkout'' ?t,
         log ''Verifying sparse checkout contents...'',
         verify_checkout e ?t]"
  define rp where "rp =
     [ExecSync (clone_cmd ?t) (cwd e),
      ExecSync ''git config core.sparseCheckout true'' ?t,
      ExecSync ''git sparse-checkout init --cone'' ?t,
      ExecSync ''git sparse-checkout set docs'' ?t,
      ExecSync ''git checkout'' ?t,
      ExecSync find_checked_out ?t]"
  define wa where
    "wa = console_log ''Starting optimized sparse clone of docs folder...'' (snd (derive_tempDir e w))"
  have R: "step_run (run_steps rest) rp"
    unfolding rest_def rp_def by (rule checkout_rest_run)
  have t: "join (tmpdir e) (''intern3-docs-clone-'' @ show_nat (clock e)) = ?t"
    by (simp add: derive_tempDir_fst join_def)
  have plan: "checkout_plan e w = [DateNow] @ (if existsSync ?T w then [RmSync ?T] else []) @ rp"
    by (simp add: checkout_plan_def Let_def derive_tempDir_fst join_def rp_def)
  have cwa: "calls wa = calls w @ [(DateNow, True)]" and fwa: "fs wa = fs w"
    by (simp_all add: wa_def console_log_def derive_tempDir_snd record_call_def)
  have run: "after_checkout e w = run_steps (clear_target e # rest) wa"
    by (simp add: after_checkout_eq checkout_steps_def rest_def run_steps_log wa_def)
  have d: "trace_ok None [(DateNow, True)] [DateNow]"
    by (rule trace_ok_single) simp
  show ?thesis
  proof (cases "existsSync ?T w")
    case True
    then have "clear_target e wa
        = rmSync e ?T (console_log ''Removing existing docs directory...'' wa)"
      by (simp add: clear_target_def existsSync_def fwa)
    then have run2: "after_checkout e w =
        run_steps ((\<lambda>w. rmSync e ?T (console_log ''Removing existing docs directory...'' w)) # rest) wa"
      by (simp add: run run_steps.simps(2))
    from step_runD [OF step_run_Cons [OF step_run_rmSync_logged R], where w = wa] obtain tr1 where
      h: "calls (snd (run_steps
                 ((\<lambda>w. rmSync e ?T (console_log ''Removing existing docs directory...'' w)) # rest) wa))
            = calls wa @ tr1
          \<and> trace_ok (fst (run_steps
                 ((\<lambda>w. rmSync e ?T (console_log ''Removing existing docs directory...'' w)) # rest) wa))
               tr1 ([RmSync ?T] @ rp)" ..
    have "trace_ok (fst (after_checkout e w)) ([(DateNow, True)] @ tr1) ([DateNow] @ [RmSync ?T] @ rp)"
      using d h [THEN conjunct2] by (simp only: run2 trace_ok_append)
    moreover have "calls (snd (after_checkout e w)) = calls w @ ([(DateNow, True)] @ tr1)"
      using h [THEN conjunct1] by (simp add: run2 cwa)
    ultimately show ?thesis
      using True by - (rule exI [of _ "[(DateNow, True)] @ tr1"], simp add: plan)
  next
    case False
    then have "clear_target e wa = (None, wa)"
      by (simp add: clear_target_def existsSync_def fwa)
    then have run2: "after_checkout e w = run_steps rest wa"
      by (simp add: run run_steps.simps(2))
    from step_runD [OF R, where w = wa] obtain tr1 where
      h: "calls (snd (run_steps rest wa)) = calls wa @ tr1
          \<and> trace_ok (fst (run_steps rest wa)) tr1 rp" ..
    have "trace_ok (fst (after_checkout e w)) ([(DateNow, True)] @ tr1) ([DateNow] @ rp)"
      using d h [THEN conjunct2] by (simp only: run2 trace_ok_append)
    moreover have "calls (snd (after_checkout e w)) = calls w @ ([(DateNow, True)] @ tr1)"
      using h [THEN conjunct1] by (simp add: run2 cwa)
    ultimately show ?thesis
      using False by - (rule exI [of _ "[(DateNow, True)] @ tr1"], simp add: plan)
  qed
qed

lemma try_block_after_checkout:
  "try_block e (fst (derive_tempDir e w)) (snd (derive_tempDir e w)) =
     (case after_checkout e w of
        (Some err, w1) \<Rightarrow> (Some err, w1)
      | (None, w1) \<Rightarrow> copy_docs e (fst (derive_tempDir e w)) w1)"
  by (simp add: try_block_eq after_checkout_eq)

lemma steps_run:
  "calls (snd (try_block e (fst (derive_tempDir e w)) (snd (derive_tempDir e w))))
      = calls w @ steps_trace e w
   \<and> prefix (map fst (steps_trace e w)) (steps_plan e w)
   \<and> list_all ok_or_diag (butlast (steps_trace e w))
   \<and> (map fst (steps_trace e w) = steps_plan e w
       \<or> steps_trace e w \<noteq> [] \<and> \<not> ok_or_diag (last (steps_trace e w))
       \<or> map fst (steps_trace e w) = checkout_plan e w
          \<and> fst (after_checkout e w) = None
          \<and> \<not> existsSync (join (fst (derive_tempDir e w)) ''docs'') (snd (after_checkout e w)))"
proof -
  let ?t = "fst (derive_tempDir e w)"
  let ?tb = "try_block e ?t (snd (derive_tempDir e w))"
  let ?w1 = "snd (after_checkout e w)"
  from after_checkout_run [of e w] obtain tr1 where
    h1: "calls ?w1 = calls w @ tr1 \<and> trace_ok (fst (after_checkout e w)) tr1 (checkout_plan e w)" ..
  note c1 = h1 [THEN conjunct1] and k1 = h1 [THEN conjunct2]
  have t: "join (tmpdir e) (''intern3-docs-clone-'' @ show_nat (clock e)) = ?t"
    by (simp add: derive_tempDir_fst join_def)
  have cp: "copy_plan e =
     [MkdirSync (resolve e ''./content''),
      CpSync (join ?t ''docs'') (resolve e TARGET_DOCS_DIR),
      ExecSync find_target (cwd e)]"
    by (simp add: copy_plan_def Let_def derive_tempDir_fst join_def)
  have "\<exists>tr. calls (snd ?tb) = calls w @ tr
      \<and> prefix (map fst tr) (steps_plan e w)
      \<and> list_all ok_or_diag (butlast tr)
      \<and> (map fst tr = steps_plan e w
          \<or> tr \<noteq> [] \<and> \<not> ok_or_diag (last tr)
          \<or> map fst tr = checkout_plan e w
             \<and> fst (after_checkout e w) = None
             \<and> \<not> existsSync (join ?t ''docs'') ?w1)"
  proof (cases "fst (after_checkout e w)")
    case (Some err)
    then have "?tb = (Some err, ?w1)"
      by (auto simp: try_block_after_checkout split: prod.splits)
    moreover have "trace_ok (Some err) tr1 (steps_plan e w)"
      using k1 Some by (simp add: steps_plan_def trace_ok_fail)
    ultimately show ?thesis
      using c1 by - (rule exI [of _ tr1], simp add: trace_ok_def)
  next
    case None
    then have tb: "?tb = copy_docs e ?t ?w1"
      by (auto simp: try_block_after_checkout split: prod.splits)
    have k: "trace_ok None tr1 (checkout_plan e w)"
      using k1 None by simp
    show ?thesis
    proof (cases "existsSync (join ?t ''docs'') ?w1")
      case False
      then have "?tb = (Some docs_not_found, ?w1)"
        by (simp add: tb copy_docs_def Let_def)
      with c1 k None False show ?thesis
        by - (rule exI [of _ tr1], simp add: trace_ok_def steps_plan_def)
    next
      case True
      then have tb2: "?tb =
          run_steps
            [log ''Copying docs folder to target location...'',
             mkdirSync e (resolve e ''./content''),
             cpSync e (join ?t ''docs'') (resolve e TARGET_DOCS_DIR),
             log ''Successfully copied docs folder to ./content/docs'',
             log ''Final result - files in ./content/docs:'',
             list_target e] ?w1"
        by (simp add: tb copy_docs_def Let_def)
      from step_runD [OF copy_steps_run [of e ?t], where w = ?w1] obtain tr2 where
        h2: "calls (snd (run_steps
            [log ''Copying docs folder to target location...'',
             mkdirSync e (resolve e ''./content''),
             cpSync e (join ?t ''docs'') (resolve e TARGET_DOCS_DIR),
             log ''Successfully copied docs folder to ./content/docs'',
             log ''Final result - files in ./content/docs:'',
             list_target e] ?w1)) = calls ?w1 @ tr2
          \<and> trace_ok (fst (run_steps
            [log ''Copying docs folder to target location...'',
             mkdirSync e (resolve e ''./content''),
             cpSync e (join ?t ''docs'') (resolve e TARGET_DOCS_DIR),
             log ''Successfully copied docs folder to ./content/docs'',
             log ''Final result - files in ./content/docs:'',
             list_target e] ?w1)) tr2
             [MkdirSync (resolve e ''./content''),
              CpSync (join ?t ''docs'') (resolve e TARGET_DOCS_DIR),
              ExecSync find_target (cwd e)]" ..
      have "trace_ok (fst ?tb) (tr1 @ tr2) (steps_plan e w)"
        using k h2 [THEN conjunct2] by (simp only: tb2 steps_plan_def cp trace_ok_append)
      moreover have "calls (snd ?tb) = calls w @ (tr1 @ tr2)"
        using h2 [THEN conjunct1] c1 by (simp add: tb2)
      ultimately show ?thesis
        by - (rule exI [of _ "tr1 @ tr2"], auto simp: trace_ok_def split: if_splits)
    qed
  qed
  then obtain tr where
    h: "calls (snd ?tb) = calls w @ tr
      \<and> prefix (map fst tr) (steps_plan e w)
      \<and> list_all ok_or_diag (butlast tr)
      \<and> (map fst tr = steps_plan e w
          \<or> tr \<noteq> [] \<and> \<not> ok_or_diag (last tr)
          \<or> map fst tr = checkout_plan e w
             \<and> fst (after_checkout e w) = None
             \<and> \<not> existsSync (join ?t ''docs'') ?w1)" ..
  have "steps_trace e w = tr"
    using h [THEN conjunct1] by (simp add: steps_trace_def)
  with h show ?thesis
    by simp
qed

lemma list_all_last: "list_all P xs \<Longrightarrow> xs \<noteq> [] \<Longrightarrow> P (last xs)"
  by (simp add: list_all_iff)

lemma trace_ok_outcome:
  "trace_ok r tr pl \<Longrightarrow> (r = None) = (map fst tr = pl \<and> list_all ok_or_diag tr)"
  by (auto simp: trace_ok_def list_all_last split: if_splits)

lemma steps_outcome:
  "(fst (try_block e (fst (derive_tempDir e w)) (snd (derive_tempDir e w))) = None)
     = (map fst (steps_trace e w) = steps_plan e w \<and> list_all ok_or_diag (steps_trace e w))"
proof -
  let ?t = "fst (derive_tempDir e w)"
  let ?tb = "try_block e ?t (snd (derive_tempDir e w))"
  let ?w1 = "snd (after_checkout e w)"
  from after_checkout_run [of e w] obtain tr1 where
    h1: "calls ?w1 = calls w @ tr1 \<and> trace_ok (fst (after_checkout e w)) tr1 (checkout_plan e w)" ..
  note c1 = h1 [THEN conjunct1] and k1 = h1 [THEN conjunct2]
  have cp: "copy_plan e =
     [MkdirSync (resolve e ''./content''),
      CpSync (join ?t ''docs'') (resolve e TARGET_DOCS_DIR),
      ExecSync find_target (cwd e)]"
    by (simp add: copy_plan_def Let_def derive_tempDir_fst join_def)
  have "\<exists>tr. calls (snd ?tb) = calls w @ tr
      \<and> (fst ?tb = None) = (map fst tr = steps_plan e w \<and> list_all ok_or_diag tr)"
  proof (cases "fst (after_checkout e w)")
    case (Some err)
    then have tb: "?tb = (Some err, ?w1)"
      by (auto simp: try_block_after_checkout split: prod.splits)
    have "trace_ok (Some err) tr1 (steps_plan e w)"
      using k1 Some by (simp add: steps_plan_def trace_ok_fail)
    from trace_ok_outcome [OF this]
    have "(fst ?tb = None) = (map fst tr1 = steps_plan e w \<and> list_all ok_or_diag tr1)"
      by (simp add: tb)
    moreover have "calls (snd ?tb) = calls w @ tr1"
      using c1 by (simp add: tb)
    ultimately show ?thesis
      by - (rule exI [of _ tr1], (intro conjI; assumption))
  next
    case None
    then have tb: "?tb = copy_docs e ?t ?w1"
      by (auto simp: try_block_after_checkout split: prod.splits)
    have k: "trace_ok None tr1 (checkout_plan e w)"
      using k1 None by simp
    show ?thesis
    proof (cases "existsSync (join ?t ''docs'') ?w1")
      case False
      then have tb1: "?tb = (Some docs_not_found, ?w1)"
        by (simp add: tb copy_docs_def Let_def)
      have "map fst tr1 = checkout_plan e w"
        using k by (simp add: trace_ok_def)
      then have "map fst tr1 \<noteq> steps_plan e w"
        by (simp add: steps_plan_def cp)
      then have "(fst ?tb = None) = (map fst tr1 = steps_plan e w \<and> list_all ok_or_diag tr1)"
        by (simp add: tb1)
      moreover have "calls (snd ?tb) = calls w @ tr1"
        using c1 by (simp add: tb1)
      ultimately show ?thesis
        by - (rule exI [of _ tr1], (intro conjI; assumption))
    next
      case True
      then have tb2: "?tb =
          run_steps
            [log ''Copying docs folder to target location...'',
             mkdirSync e (resolve e ''./content''),
             cpSync e (join ?t ''docs'') (resolve e TARGET_DOCS_DIR),
             log ''Successfully copied docs folder to ./content/docs'',
             log ''Final result - files in ./content/docs:'',
             list_target e] ?w1"
        by (simp add: tb copy_docs_def Let_def)
      from step_runD [OF copy_steps_run [of e ?t], where w = ?w1] obtain tr2 where
        h2: "calls (snd (run_steps
            [log ''Copying docs folder to target location...'',
             mkdirSync e (resolve e ''./content''),
             cpSync e (join ?t ''docs'') (resolve e TARGET_DOCS_DIR),
             log ''Successfully copied docs folder to ./content/docs'',
             log ''Final result - files in ./content/docs:'',
             list_target e] ?w1)) = calls ?w1 @ tr2
          \<and> trace_ok (fst (run_steps
            [log ''Copying docs folder to target location...'',
             mkdirSync e (resolve e ''./content''),
             cpSync e (join ?t ''docs'') (resolve e TARGET_DOCS_DIR),
             log ''Successfully copied docs folder to ./content/docs'',
             log ''Final result - files in ./content/docs:'',
             list_target e] ?w1)) tr2
             [MkdirSync (resolve e ''./content''),
              CpSync (join ?t ''docs'') (resolve e TARGET_DOCS_DIR),
              ExecSync find_target (cwd e)]" ..
      have "trace_ok (fst ?tb) (tr1 @ tr2) (steps_plan e w)"
        using k h2 [THEN conjunct2] by (simp only: tb2 steps_plan_def cp trace_ok_append)
      from trace_ok_outcome [OF this]
      have "(fst ?tb = None)
          = (map fst (tr1 @ tr2) = steps_plan e w \<and> list_all ok_or_diag (tr1 @ tr2))" .
      moreover have "calls (snd ?tb) = calls w @ (tr1 @ tr2)"
        using h2 [THEN conjunct1] c1 by (simp add: tb2)
      ultimately show ?thesis
        by - (rule exI [of _ "tr1 @ tr2"], (intro conjI; assumption))
    qed
  qed
  then obtain tr where
    h: "calls (snd ?tb) = calls w @ tr
      \<and> (fst ?tb = None) = (map fst tr = steps_plan e w \<and> list_all ok_or_diag tr)" ..
  have "steps_trace e w = tr"
    using h [THEN conjunct1] by (simp add: steps_trace_def)
  with h [THEN conjunct2] show ?thesis
    by simp
qed

lemma main_calls:
  "\<exists>rest. trace_of e w = steps_trace e w @ rest
      \<and> set (map fst rest) \<subseteq> {RmSync (fst (derive_tempDir e w))}"
proof -
  let ?t = "fst (derive_tempDir e w)"
  let ?tb = "try_block e ?t (snd (derive_tempDir e w))"
  note c = steps_run [of e w, THEN conjunct1]
  have "\<exists>rest. calls (snd (main e w)) = calls (snd ?tb) @ rest \<and> set (map fst rest) \<subseteq> {RmSync ?t}"
  proof (cases "fst ?tb")
    case (Some err)
    then have "calls (snd (main e w)) = calls (snd ?tb) @ []"
      by (auto simp: main_def sparseCloneDocs_alt console_error_def split: prod.splits)
    then show ?thesis
      by - (rule exI [of _ "[]"], simp)
  next
    case None
    then have m: "calls (snd (main e w)) = calls (snd (finally_block e ?t (snd ?tb)))"
      by (auto simp: main_def sparseCloneDocs_alt console_error_def console_log_def
            split: prod.splits option.splits)
    show ?thesis
    proof (cases "existsSync ?t (snd ?tb)")
      case False
      then show ?thesis
        by - (rule exI [of _ "[]"], simp add: m finally_block_def)
    next
      case True
      then show ?thesis
        by - (rule exI [of _ "[(RmSync ?t, \<not> fs_fault e (RmSync ?t) (fs (snd ?tb)))]"],
              simp add: m finally_block_def rmSync_def record_call_def console_log_def)
    qed
  qed
  then obtain rest where
    r: "calls (snd (main e w)) = calls (snd ?tb) @ rest \<and> set (map fst rest) \<subseteq> {RmSync ?t}" ..
  have "trace_of e w = steps_trace e w @ rest"
    using r [THEN conjunct1] c by (simp add: trace_of_def)
  with r show ?thesis
    by - (rule exI [of _ rest], simp)
qed

lemma prefix_take: "prefix xs ys \<Longrightarrow> k \<le> length xs \<Longrightarrow> take k xs = take k ys"
  by (auto simp: prefix_def)

lemma checkout_plan_last:
  "checkout_plan e w \<noteq> []
   \<and> last (checkout_plan e w) = ExecSync find_checked_out (fst (derive_tempDir e w))"
  by (simp add: checkout_plan_def Let_def derive_tempDir_fst join_def)

lemma listing_then_copy:
  assumes len: "length (checkout_plan e w) \<le> length (steps_trace e w)"
    and docs: "existsSync (join (fst (derive_tempDir e w)) ''docs'') (snd (after_checkout e w))"
  shows "take (Suc (length (checkout_plan e w))) (map fst (steps_trace e w))
      = checkout_plan e w @ [MkdirSync (resolve e ''./content'')]"
proof -
  let ?tr = "steps_trace e w"
  let ?cp = "checkout_plan e w"
  note r = steps_run [of e w]
  note pre = r [THEN conjunct2, THEN conjunct1]
  note alt = r [THEN conjunct2, THEN conjunct2, THEN conjunct2]
  have plan: "take (Suc (length ?cp)) (steps_plan e w) = ?cp @ [MkdirSync (resolve e ''./content'')]"
    by (simp add: steps_plan_def copy_plan_def Let_def)
  have "length ?cp < length ?tr"
  proof (rule ccontr)
    assume "\<not> length ?cp < length ?tr"
    with len have l: "length ?tr = length ?cp" by simp
    have "map fst ?tr = take (length ?cp) (steps_plan e w)"
      using prefix_take [OF pre, of "length ?cp"] l by simp
    then have m: "map fst ?tr = ?cp"
      by (simp add: steps_plan_def)
    have ne: "?tr \<noteq> []"
      using m checkout_plan_last [of e w] by auto
    have "fst (last ?tr) = last (map fst ?tr)"
      using ne by (simp add: last_map)
    then have "diagnostic (fst (last ?tr))"
      using m checkout_plan_last [of e w] by (simp add: diagnostic_def)
    then have ok: "ok_or_diag (last ?tr)"
      by (simp add: ok_or_diag_def)
    have "length (steps_plan e w) \<noteq> length ?cp"
      by (simp add: steps_plan_def copy_plan_def Let_def)
    then have "map fst ?tr \<noteq> steps_plan e w"
      using l by (metis length_map)
    with alt ok docs show False
      by simp
  qed
  then have "Suc (length ?cp) \<le> length (map fst ?tr)"
    by simp
  from prefix_take [OF pre this] plan show ?thesis
    by simp
qed

subsection \<open>Facts about the concrete environment\<close>

lemmas eval_run = eval_script after_checkout_def before_clone_def trace_of_def eval_world eval_demo


lemma demo_target: "resolve (demo_env a b c) TARGET_DOCS_DIR = [''site'', ''content'', ''docs'']"
  by (simp add: resolve_target demo_env_def)

lemma demo_derive_tempDir: "fst (derive_tempDir (demo_env a b c) w) = demo_tempDir"
  by (simp add: derive_tempDir_fst demo_env_def demo_tempDir_def show_nat_1000)



section \<open>The claims\<close>

text \<open>
  Claim C1: for every run in which the temporary directory was created, the temporary
  directory no longer exists when the process exits, on every exit path. The code does
  not do this: the catch clause ends the process with \<open>process.exit(1)\<close> before the
  finally clause can remove the directory. Here the remote has no docs folder: the clone
  directory did not exist before the run, the run exits with status 1, and the directory
  is still there.
\<close>

theorem failed_run_leaves_tempDir:
  "\<not> existsSync demo_tempDir demo_world
   \<and> fst (derive_tempDir (demo_env False True True) demo_world) = demo_tempDir
   \<and> fst (main (demo_env False True True) demo_world) = 1
   \<and> existsSync demo_tempDir (snd (main (demo_env False True True) demo_world))"
  by (simp add: eval_run split del: if_split)

text \<open>
  Claim C2: step 1 derives a temporary directory path that is guaranteed not to exist
  yet, and two invocations never derive the same path. The path is made from the
  temporary directory of the system and the clock, and nothing looks at the file system:
  with a directory left at that path and the clock at the same millisecond, the derived
  path exists already, and a second invocation derives it again.
\<close>

theorem tempDir_not_fresh:
  "existsSync (fst (derive_tempDir (demo_env True True True) stale_world)) stale_world
   \<and> fst (derive_tempDir (demo_env True True True) stale_world)
       = fst (derive_tempDir (demo_env True True True) demo_world)"
  by (simp add: eval_run split del: if_split)

text \<open>
  Claim C2, as amended: two invocations derive the same path exactly when they read the
  same system temporary directory and the same clock value; the derivation leaves the
  file system as it is.
\<close>

theorem tempDir_eq_iff:
  "(fst (derive_tempDir e1 w1) = fst (derive_tempDir e2 w2))
     = (tmpdir e1 = tmpdir e2 \<and> clock e1 = clock e2)
   \<and> fs (snd (derive_tempDir e1 w1)) = fs w1"
  by (auto simp: derive_tempDir_fst derive_tempDir_snd record_call_def dest: show_nat_inj)



text \<open>
  Claim C4: the steps execute in the fixed order of the spec (derive temp path; clear
  target; clone; enable sparse checkout; set inclusion to docs; checkout; diagnostic
  listing; copy; diagnostic listing), and when a step fails no subsequent step executes.
  The second half fails for the two diagnostic listings, whose failure is caught: here
  both listings fail, and the copy, the second listing and the cleanup still run.
\<close>

theorem failed_listing_then_copy:
  "trace_of (demo_env True False True) demo_world =
     [(DateNow, True),
      (RmSync [''site'', ''content'', ''docs''], True),
      (ExecSync (clone_cmd demo_tempDir) [''site''], True),
      (ExecSync ''git config core.sparseCheckout true'' demo_tempDir, True),
      (ExecSync ''git sparse-checkout init --cone'' demo_tempDir, True),
      (ExecSync ''git sparse-checkout set docs'' demo_tempDir, True),
      (ExecSync ''git checkout'' demo_tempDir, True),
      (ExecSync find_checked_out demo_tempDir, False),
      (MkdirSync [''site'', ''content''], True),
      (CpSync (demo_tempDir @ [''docs'']) [''site'', ''content'', ''docs''], True),
      (ExecSync find_target [''site''], False),
      (RmSync demo_tempDir, True)]"
  by (simp add: eval_run split del: if_split)

text \<open>
  Claim C4, as amended: the steps execute in the fixed order given in the spec (derive
  temp path; clear target; clone; enable sparse checkout; set inclusion to docs;
  checkout; diagnostic listing; copy; diagnostic listing), and for every run in which a
  step other than one of the two diagnostic listings fails, no subsequent step executes;
  a failing diagnostic listing is caught and the following steps still execute. The calls
  a run adds to the record are those of its steps, followed at most by the removal of
  the clone directory; the steps make the calls of the plan from its start, none
  skipped; only the last call can have failed outside a listing; the calls stop short
  of the end of the plan only after such a failure, or after the first listing when the
  copy finds no docs directory; once the first listing has run, whatever its outcome,
  the copy starts when the docs directory is there; and the try block completes exactly
  when the whole plan was called with no failure outside a listing, so that a failing
  second listing does not make it throw.
\<close>

theorem steps_run_in_order:
  "calls (snd (main e w)) = calls w @ trace_of e w
   \<and> (\<exists>rest. trace_of e w = steps_trace e w @ rest
        \<and> set (map fst rest) \<subseteq> {RmSync (fst (derive_tempDir e w))})
   \<and> prefix (map fst (steps_trace e w)) (steps_plan e w)
   \<and> list_all ok_or_diag (butlast (steps_trace e w))
   \<and> (map fst (steps_trace e w) = steps_plan e w
       \<or> steps_trace e w \<noteq> [] \<and> \<not> ok_or_diag (last (steps_trace e w))
       \<or> map fst (steps_trace e w) = checkout_plan e w
          \<and> fst (after_checkout e w) = None
          \<and> \<not> existsSync (join (fst (derive_tempDir e w)) ''docs'') (snd (after_checkout e w)))
   \<and> (length (checkout_plan e w) \<le> length (steps_trace e w)
        \<and> existsSync (join (fst (derive_tempDir e w)) ''docs'') (snd (after_checkout e w))
       \<longrightarrow> take (Suc (length (checkout_plan e w))) (map fst (steps_trace e w))
             = checkout_plan e w @ [MkdirSync (resolve e ''./content'')])
   \<and> (fst (try_block e (fst (derive_tempDir e w)) (snd (derive_tempDir e w))) = None)
       = (map fst (steps_trace e w) = steps_plan e w \<and> list_all ok_or_diag (steps_trace e w))"
  using main_trace [of e w] main_calls [of e w] steps_run [of e w] listing_then_copy [of e w]
    steps_outcome [of e w]
  by (intro conjI impI) simp_all

theorem steps_run_in_order_witness:
  "(ExecSync find_checked_out demo_tempDir, False) \<in> set (steps_trace (demo_env True False True) demo_world)
   \<and> take (Suc (length (checkout_plan (demo_env True False True) demo_world)))
        (map fst (steps_trace (demo_env True False True) demo_world))
       = checkout_plan (demo_env True False True) demo_world @ [MkdirSync [''site'', ''content'']]"
proof -
  let ?e = "demo_env True False True"
  have tr: "steps_trace ?e demo_world =
     [(DateNow, True),
      (RmSync [''site'', ''content'', ''docs''], True),
      (ExecSync (clone_cmd demo_tempDir) [''site''], True),
      (ExecSync ''git config core.sparseCheckout true'' demo_tempDir, True),
      (ExecSync ''git sparse-checkout init --cone'' demo_tempDir, True),
      (ExecSync ''git sparse-checkout set docs'' demo_tempDir, True),
      (ExecSync ''git checkout'' demo_tempDir, True),
      (ExecSync find_checked_out demo_tempDir, False),
      (MkdirSync [''site'', ''content''], True),
      (CpSync (demo_tempDir @ [''docs'']) [''site'', ''content'', ''docs''], True),
      (ExecSync find_target [''site''], False)]"
    by (simp add: steps_trace_def eval_run split del: if_split)
  have len: "length (checkout_plan ?e demo_world) = 8"
    by (simp add: checkout_plan_def Let_def demo_target demo_world_def demo_fs_def existsSync_def)
  have docs: "existsSync (join (fst (derive_tempDir ?e demo_world)) ''docs'')
      (snd (after_checkout ?e demo_world))"
    by (simp add: eval_run split del: if_split)
  have c: "resolve ?e ''./content'' = [''site'', ''content'']"
    by (simp add: resolve_content demo_env_def)
  from steps_run_in_order [of ?e demo_world] docs len
  have "take (Suc (length (checkout_plan ?e demo_world))) (map fst (steps_trace ?e demo_world))
       = checkout_plan ?e demo_world @ [MkdirSync [''site'', ''content'']]"
    by (simp add: tr c)
  then show ?thesis
    by (simp add: tr)
qed

text \<open>
  Claim C5: a failure of either diagnostic listing is caught and logged and never makes
  the run fail; the outcome of the run does not depend on whether the listings succeed.
  Neither listing step ever throws, a failing listing logs its message, and two
  environments that differ only in the listings' success and in what child processes
  print give the same exit status, the same file system and the same error stream.
\<close>

theorem listing_failure_harmless:
  assumes "same_but_listing e e'"
  shows "fst (main e w) = fst (main e' w)
    \<and> fs (snd (main e w)) = fs (snd (main e' w))
    \<and> stderr (snd (main e w)) = stderr (snd (main e' w))
    \<and> fst (verify_checkout e tempDir w) = None
    \<and> fst (list_target e w) = None
    \<and> (snd (shell e find_checked_out tempDir (fs w)) = None \<longrightarrow>
         stdout (snd (verify_checkout e tempDir w))
           = stdout w @ [''Could not list checked out files''])
    \<and> (snd (shell e find_target (cwd e) (fs w)) = None \<longrightarrow>
         stdout (snd (list_target e w))
           = stdout w @ [''Could not list files, but copy completed successfully''])"
proof -
  have a: "fst (verify_checkout e tempDir w) = None"
    by (simp add: verify_checkout_def split: prod.splits sum.splits)
  have b: "fst (list_target e w) = None"
    by (simp add: list_target_def split: prod.splits sum.splits)
  have c: "snd (shell e find_checked_out tempDir (fs w)) = None \<longrightarrow>
         stdout (snd (verify_checkout e tempDir w))
           = stdout w @ [''Could not list checked out files'']"
    by (cases "shell e find_checked_out tempDir (fs w)")
       (simp add: verify_checkout_def execSync_utf8_def record_call_def console_log_def)
  have d: "snd (shell e find_target (cwd e) (fs w)) = None \<longrightarrow>
         stdout (snd (list_target e w))
           = stdout w @ [''Could not list files, but copy completed successfully'']"
    by (cases "shell e find_target (cwd e) (fs w)")
       (simp add: list_target_def execSync_utf8_def record_call_def console_log_def)
  from main_sim [OF assms, of w] a b c d show ?thesis
    by (simp add: sim_def)
qed

theorem listing_failure_harmless_witness:
  "fst (main (demo_env True True True) demo_world) = fst (main (demo_env True False True) demo_world)
   \<and> fs (snd (main (demo_env True True True) demo_world))
       = fs (snd (main (demo_env True False True) demo_world))
   \<and> stdout (snd (verify_checkout (demo_env True False True) demo_tempDir demo_world))
       = [''Could not list checked out files'']"
proof -
  have "snd (shell (demo_env True False True) find_checked_out demo_tempDir (fs demo_world)) = None"
    by (simp add: demo_env_def demo_shell_def find_checked_out_def find_target_def)
  moreover have "stdout demo_world = []"
    by (simp add: demo_world_def)
  moreover have "same_but_listing (demo_env True False True) (demo_env True True True)"
    by (simp add: same_but_listing_def demo_env_def demo_shell_def)
  ultimately show ?thesis
    using listing_failure_harmless [of "demo_env True False True" "demo_env True True True"
        demo_world demo_tempDir]
    by simp
qed

text \<open>
  Claim C6: the entry point takes no arguments; the process exits with status 0 on every
  successful run and with a non-zero status on every failing run (clone failure, missing
  docs directory, copy failure, any unexpected error), and prints a diagnostic in every
  failure case. The script reads nothing but its environment. Its status is 0 or 1; it is
  0 exactly when the promise of \<open>sparseCloneDocs\<close> resolves, and then nothing was written
  to the error stream and every call outside the diagnostic listings succeeded; otherwise
  exactly one diagnostic is written to the error stream. A thrown error in the try block,
  a missing docs directory and a cleanup that throws all give status 1.
\<close>

theorem exit_status:
  "(fst (main e w) = 0 \<or> fst (main e w) = 1)
   \<and> (fst (main e w) = 0) = (fst (sparseCloneDocs e w) = Returned)
   \<and> (fst (main e w) = 0 \<longrightarrow>
        stderr (snd (main e w)) = stderr w \<and> list_all ok_or_diag (trace_of e w)
        \<and> last (stdout (snd (main e w))) = ''Optimized sparse clone completed successfully!'')
   \<and> (fst (main e w) \<noteq> 0 \<longrightarrow> (\<exists>l err. stderr (snd (main e w)) = stderr w @ [(l, err)]))
   \<and> (fst (try_block e (fst (derive_tempDir e w)) (snd (derive_tempDir e w))) \<noteq> None
        \<longrightarrow> fst (main e w) = 1)
   \<and> (fst (after_checkout e w) = None
        \<and> \<not> existsSync (join (fst (derive_tempDir e w)) ''docs'') (snd (after_checkout e w))
        \<longrightarrow> fst (main e w) = 1)
   \<and> (fst (try_block e (fst (derive_tempDir e w)) (snd (derive_tempDir e w))) = None
        \<and> fst (finally_block e (fst (derive_tempDir e w))
                 (snd (try_block e (fst (derive_tempDir e w)) (snd (derive_tempDir e w))))) \<noteq> None
        \<longrightarrow> fst (main e w) = 1)"
proof -
  note code = main_exit_code [of e w]
  note err = main_stderr [of e w]
  note tr = main_trace [of e w]
  have out: "fst (main e w) = 0 \<longrightarrow>
      last (stdout (snd (main e w))) = ''Optimized sparse clone completed successfully!''"
    by (auto simp: main_def sparseCloneDocs_alt console_log_def
          split: prod.splits option.splits completion.splits)
  have t: "fst (try_block e (fst (derive_tempDir e w)) (snd (derive_tempDir e w))) \<noteq> None
        \<longrightarrow> fst (main e w) = 1"
    by (auto simp: main_def sparseCloneDocs_alt split: prod.splits option.splits)
  have d: "fst (after_checkout e w) = None
        \<and> \<not> existsSync (join (fst (derive_tempDir e w)) ''docs'') (snd (after_checkout e w))
        \<longrightarrow> fst (main e w) = 1"
    by (auto simp: main_def sparseCloneDocs_cases copy_docs_def Let_def
          split: prod.splits option.splits)
  have f: "fst (try_block e (fst (derive_tempDir e w)) (snd (derive_tempDir e w))) = None
        \<and> fst (finally_block e (fst (derive_tempDir e w))
                 (snd (try_block e (fst (derive_tempDir e w)) (snd (derive_tempDir e w))))) \<noteq> None
        \<longrightarrow> fst (main e w) = 1"
    by (auto simp: main_def sparseCloneDocs_alt split: prod.splits option.splits)
  show ?thesis
    using code err tr [THEN conjunct2, THEN conjunct2, THEN conjunct2] out t d f
    by (intro conjI; blast)
qed

theorem exit_status_witness:
  "fst (main (demo_env True True True) demo_world) = 0
   \<and> stderr (snd (main (demo_env True True True) demo_world)) = []
   \<and> fst (main (demo_env False True True) demo_world) = 1
   \<and> fst (main (demo_env True True False) demo_world) = 1"
proof -
  have a: "fst (sparseCloneDocs (demo_env True True True) demo_world) = Returned"
    by (simp add: eval_run split del: if_split)
  have b: "fst (after_checkout (demo_env False True True) demo_world) = None
      \<and> \<not> existsSync (join (fst (derive_tempDir (demo_env False True True) demo_world)) ''docs'')
            (snd (after_checkout (demo_env False True True) demo_world))"
    by (simp add: eval_run split del: if_split)
  have c: "fst (try_block (demo_env True True False)
                 (fst (derive_tempDir (demo_env True True False) demo_world))
                 (snd (derive_tempDir (demo_env True True False) demo_world))) = None
      \<and> fst (finally_block (demo_env True True False)
                 (fst (derive_tempDir (demo_env True True False) demo_world))
                 (snd (try_block (demo_env True True False)
                 (fst (derive_tempDir (demo_env True True False) demo_world))
                 (snd (derive_tempDir (demo_env True True False) demo_world))))) \<noteq> None"
    by (simp add: eval_run split del: if_split)
  have s: "stderr demo_world = []"
    by (simp add: demo_world_def)
  show ?thesis
    using exit_status [of "demo_env True True True" demo_world]
      exit_status [of "demo_env False True True" demo_world]
      exit_status [of "demo_env True True False" demo_world] a b c s
    by simp
qed






text \<open>
  Claim C10: whenever any step of \<open>sparseCloneDocs\<close> throws, the error is caught and the
  process is ended with \<open>process.exit(1)\<close> before the promise settles, so the promise never
  rejects and the \<open>.catch\<close> handler of the runner is unreachable. The removal of the clone
  directory in the finally clause is outside the try block: when it throws after a try
  block that completed, the promise rejects and the runner's handler runs.
\<close>

theorem cleanup_failure_rejects:
  "fst (sparseCloneDocs (demo_env True True False) demo_world) = Threw (FsFailed (RmSync demo_tempDir))
   \<and> fst (main (demo_env True True False) demo_world) = 1
   \<and> stderr (snd (main (demo_env True True False) demo_world))
       = [(''Script failed:'', FsFailed (RmSync demo_tempDir))]"
  by (simp add: eval_run split del: if_split)

text \<open>
  Claim C10, as amended: whenever a statement of the try block throws, the error is
  caught, logged, and the process is ended with status 1 before the promise settles and
  before the finally clause; the promise rejects exactly when the try block completes and
  the finally clause throws, it never rejects with an error of the try block, and when it
  rejects the handler of the runner logs the error and ends the process with status 1.
\<close>

theorem rejection_only_from_cleanup:
  "(fst (try_block e (fst (derive_tempDir e w)) (snd (derive_tempDir e w))) = Some err \<longrightarrow>
      sparseCloneDocs e w
        = (Exited 1,
           console_error ''Error during sparse clone:'' err
             (snd (try_block e (fst (derive_tempDir e w)) (snd (derive_tempDir e w)))))
      \<and> main e w
        = (1,
           console_error ''Error during sparse clone:'' err
             (snd (try_block e (fst (derive_tempDir e w)) (snd (derive_tempDir e w))))))
   \<and> (fst (sparseCloneDocs e w) = Threw err)
       = (fst (try_block e (fst (derive_tempDir e w)) (snd (derive_tempDir e w))) = None
          \<and> fst (finally_block e (fst (derive_tempDir e w))
                  (snd (try_block e (fst (derive_tempDir e w)) (snd (derive_tempDir e w)))))
              = Some err)
   \<and> (fst (sparseCloneDocs e w) = Threw err \<longrightarrow>
        main e w = (1, console_error ''Script failed:'' err (snd (sparseCloneDocs e w))))"
  by (auto simp: main_def sparseCloneDocs_alt split: prod.splits option.splits)

theorem rejection_only_from_cleanup_witness:
  "sparseCloneDocs (demo_env False True True) demo_world
     = (Exited 1,
        console_error ''Error during sparse clone:'' docs_not_found
          (snd (try_block (demo_env False True True) demo_tempDir
                  (snd (derive_tempDir (demo_env False True True) demo_world)))))
   \<and> main (demo_env False True True) demo_world
     = (1,
        console_error ''Error during sparse clone:'' docs_not_found
          (snd (try_block (demo_env False True True) demo_tempDir
                  (snd (derive_tempDir (demo_env False True True) demo_world)))))
   \<and> fst (sparseCloneDocs (demo_env False True True) demo_world) \<noteq> Threw docs_not_found
   \<and> main (demo_env True True False) demo_world
     = (1,
        console_error ''Script failed:'' (FsFailed (RmSync demo_tempDir))
          (snd (sparseCloneDocs (demo_env True True False) demo_world)))"
proof -
  let ?e = "demo_env False True True"
  let ?g = "demo_env True True False"
  have "fst (try_block ?e (fst (derive_tempDir ?e demo_world)) (snd (derive_tempDir ?e demo_world)))
      = Some docs_not_found"
    by (simp add: eval_run docs_not_found_def split del: if_split)
  moreover have "fst (sparseCloneDocs ?g demo_world) = Threw (FsFailed (RmSync demo_tempDir))"
    by (simp add: eval_run split del: if_split)
  ultimately show ?thesis
    using rejection_only_from_cleanup [of ?e demo_world docs_not_found]
      rejection_only_from_cleanup [of ?g demo_world "FsFailed (RmSync demo_tempDir)"]
    by (simp add: demo_derive_tempDir)
qed

end
